theory Spec2Isabelle
  imports Main "HOL-Library.Sublist"
begin

section \<open>The hypervisor as seen by the driver\<close>

text \<open>
  The driver talks to the Parallels SDK through a VE handle.  The states the SDK reports
  are the seventeen \<open>pc.VMS_*\<close> constants the driver names in \<open>PCS_STATE_NAMES\<close>;
  \<open>VMS_UNLISTED\<close> stands for any other value the SDK may report (the driver has no
  name for it).
\<close>

datatype vm_state =
    VMS_COMPACTING | VMS_CONTINUING | VMS_DELETING_STATE | VMS_MIGRATING
  | VMS_PAUSED | VMS_PAUSING | VMS_RESETTING | VMS_RESTORING | VMS_RESUMING
  | VMS_RUNNING | VMS_SNAPSHOTING | VMS_STARTING | VMS_STOPPED | VMS_STOPPING
  | VMS_SUSPENDED | VMS_SUSPENDING | VMS_SUSPENDING_SYNC
  | VMS_UNLISTED

datatype stop_mode = PSM_KILL | PSM_ACPI
datatype stop_flag = PSF_FORCE

datatype vm_type = PVT_VM | PVT_CT

datatype dev_type =
  PDE_HARD_DISK | PDE_OPTICAL_DISK | PDE_FLOPPY_DISK | PDE_GENERIC_NETWORK_ADAPTER
  | PDE_USB_DEVICE

datatype sdk_errcode = PRL_ERR_VM_UUID_NOT_FOUND | PRL_ERR_INVALID_ARG | PRL_ERR_FAILURE nat

text \<open>The asynchronous operations of a VE handle; each returns a job that is waited on.\<close>

datatype sdk_op =
    Op_start
  | Op_stop_ex stop_mode stop_flag
  | Op_suspend
  | Op_resume
  | Op_pause
  | Op_restart
  | Op_delete
  | Op_clone_ex string string

record hdd =
  hdd_index :: nat
  image_path :: string

record boot_dev =
  bd_type :: dev_type
  bd_index :: nat

record ve =
  ve_name :: string
  ve_vm_type :: vm_type
  ram_size :: nat
  cpu_count :: nat
  hard_disks :: "hdd list"
  boot_devs :: "boot_dev list"
  home_path :: string
  os_template :: string

text \<open>The exceptions that the modelled code raises or lets through.\<close>

datatype exn =
    InstanceNotFound string
  | PrlSDKError sdk_errcode
  | NotImplementedError
  | KeyError
  | UnboundLocalError string
  | OSError "string list"
  | IOError string
  | Exception string
  | VolumeDriverNotFound string
  | ProcessExecutionError "string list"
  | VifError string
  | VolumeError string
  | ImageServiceError
  | CallbackError

text \<open>
  What a run leaves behind: every call that reaches the hypervisor, the operating system
  or a collaborator is recorded, in order.  \<open>Issue\<close> is the call that creates a job on the
  VE of that name, \<open>Await\<close> the \<open>.wait()\<close> on that job.
\<close>

record image_metadata =
  md_name :: string
  md_disk_format :: string
  md_vm_mode :: string
  md_pcs_ostemplate :: string
  md_pcs_disk_descriptor :: "string option"

datatype event =
    Poll vm_state
  | Sleep nat
  | Issue string sdk_op
  | Await string sdk_op
  | VifPlug string
  | VifUnplug string
  | VolumeDisconnect string string
  | TaskState string
  | Execute "string list"
  | OpenFile string
  | CloseFile string
  | Unlink string
  | Popen "string list"
  | ReadAll "string list"
  | Kill "string list"
  | WaitProc "string list"
  | ClosePipe "string list"
  | ImageShow string
  | ImageUpdate string image_metadata

text \<open>
  A run either returns, raises, or is still going when the scripted hypervisor has no
  further answer (\<open>Unfinished\<close>: the model's bound on a loop that the source does not
  bound).
\<close>

datatype 'a outcome = Ret 'a | Exc exn | Unfinished

text \<open>
  The mutable part: the states that successive \<open>get_state\<close> calls will report, and the
  trace so far.
\<close>

record world =
  polls :: "vm_state list"
  trace :: "event list"

text \<open>
  The fixed part: how each external call answers.  A function of the call, so the same
  call answers the same way throughout a run.
\<close>

record env =
  vm_config :: "string \<Rightarrow> sdk_errcode + ve"
  job_error :: "sdk_op \<Rightarrow> sdk_errcode option"
  clone_param :: ve
  vif_error :: "string \<Rightarrow> bool"
  volume_drivers :: "string list"
  volume_error :: "string \<Rightarrow> bool"
  callback_error :: "string \<Rightarrow> bool"
  execute_error :: "string list \<Rightarrow> bool"
  popen_error :: "string list \<Rightarrow> bool"
  exit_status :: "string list \<Rightarrow> int"
  stdout_of :: "string list \<Rightarrow> string"
  open_error :: "string \<Rightarrow> bool"
  file_content :: "string \<Rightarrow> string"
  unlink_error :: "string \<Rightarrow> bool"
  root_helper :: "string list"
  pcs_snapshot_disk_format :: string
  pcs_snapshot_dir :: string
  image_name :: "string \<Rightarrow> string option"
  image_update_error :: "string \<Rightarrow> bool"
  mktemp :: "string \<Rightarrow> string"

subsection \<open>Sequencing\<close>

definition emit :: "event \<Rightarrow> world \<Rightarrow> unit outcome \<times> world" where
  "emit e s = (Ret (), s\<lparr>trace := trace s @ [e]\<rparr>)"

definition then_do ::
  "(world \<Rightarrow> 'a outcome \<times> world) \<Rightarrow> ('a \<Rightarrow> world \<Rightarrow> 'b outcome \<times> world)
     \<Rightarrow> world \<Rightarrow> 'b outcome \<times> world" where
  "then_do m f s =
     (case m s of
        (Ret a, s') \<Rightarrow> f a s'
      | (Exc e, s') \<Rightarrow> (Exc e, s')
      | (Unfinished, s') \<Rightarrow> (Unfinished, s'))"

text \<open>
  Python 2 \<open>try: m finally: c\<close>: \<open>c\<close> runs whether \<open>m\<close> returned or raised; an
  exception raised by \<open>c\<close> replaces the one in flight.
\<close>

definition try_finally ::
  "(world \<Rightarrow> 'a outcome \<times> world) \<Rightarrow> (world \<Rightarrow> unit outcome \<times> world)
     \<Rightarrow> world \<Rightarrow> 'a outcome \<times> world" where
  "try_finally m c s =
     (case m s of
        (Unfinished, s') \<Rightarrow> (Unfinished, s')
      | (r, s') \<Rightarrow>
          (case c s' of
             (Ret _, s'') \<Rightarrow> (r, s'')
           | (Exc e, s'') \<Rightarrow> (Exc e, s'')
           | (Unfinished, s'') \<Rightarrow> (Unfinished, s'')))"

text \<open>Python \<open>try: m except: h\<close> with a bare \<open>except\<close>.\<close>

definition try_except ::
  "(world \<Rightarrow> 'a outcome \<times> world) \<Rightarrow> (exn \<Rightarrow> world \<Rightarrow> 'a outcome \<times> world)
     \<Rightarrow> world \<Rightarrow> 'a outcome \<times> world" where
  "try_except m h s =
     (case m s of
        (Exc e, s') \<Rightarrow> h e s'
      | (r, s') \<Rightarrow> (r, s'))"

definition ret :: "'a \<Rightarrow> world \<Rightarrow> 'a outcome \<times> world" where
  "ret a s = (Ret a, s)"

definition raise :: "exn \<Rightarrow> world \<Rightarrow> 'a outcome \<times> world" where
  "raise e s = (Exc e, s)"

section \<open>driver.py: lookup and the unary operations\<close>

definition get_ve_by_name :: "env \<Rightarrow> string \<Rightarrow> world \<Rightarrow> ve outcome \<times> world" where
  "get_ve_by_name E name s =
     (case vm_config E name of
        Inr v \<Rightarrow> (Ret v, s)
      | Inl code \<Rightarrow>
          if code = PRL_ERR_VM_UUID_NOT_FOUND then (Exc (InstanceNotFound name), s)
          else (Exc (PrlSDKError code), s))"

text \<open>\<open>sdk_ve.op().wait()\<close>: the job is created, waited on, and its failure raised.\<close>

definition sdk_call :: "env \<Rightarrow> ve \<Rightarrow> sdk_op \<Rightarrow> world \<Rightarrow> unit outcome \<times> world" where
  "sdk_call E v op s =
     (let s' = s\<lparr>trace := trace s @ [Issue (ve_name v) op, Await (ve_name v) op]\<rparr>
      in case job_error E op of
           None \<Rightarrow> (Ret (), s')
         | Some code \<Rightarrow> (Exc (PrlSDKError code), s'))"

definition start :: "env \<Rightarrow> ve \<Rightarrow> world \<Rightarrow> unit outcome \<times> world" where
  "start E v = sdk_call E v Op_start"

definition stop :: "env \<Rightarrow> ve \<Rightarrow> bool \<Rightarrow> world \<Rightarrow> unit outcome \<times> world" where
  "stop E v kill =
     (if kill then sdk_call E v (Op_stop_ex PSM_KILL PSF_FORCE)
      else sdk_call E v (Op_stop_ex PSM_ACPI PSF_FORCE))"

definition suspend :: "env \<Rightarrow> ve \<Rightarrow> world \<Rightarrow> unit outcome \<times> world" where
  "suspend E v = sdk_call E v Op_suspend"

definition resume :: "env \<Rightarrow> ve \<Rightarrow> world \<Rightarrow> unit outcome \<times> world" where
  "resume E v = sdk_call E v Op_resume"

definition pause :: "env \<Rightarrow> ve \<Rightarrow> world \<Rightarrow> unit outcome \<times> world" where
  "pause E v = sdk_call E v Op_pause"

definition unpause :: "env \<Rightarrow> ve \<Rightarrow> world \<Rightarrow> unit outcome \<times> world" where
  "unpause E v = sdk_call E v Op_start"

definition get_state :: "world \<Rightarrow> vm_state outcome \<times> world" where
  "get_state s =
     (case polls s of
        [] \<Rightarrow> (Unfinished, s)
      | x # xs \<Rightarrow> (Ret x, s\<lparr>polls := xs, trace := trace s @ [Poll x]\<rparr>))"

definition PCS_STATE_NAMES :: "vm_state \<Rightarrow> string option" where
  "PCS_STATE_NAMES st =
     (case st of
        VMS_COMPACTING \<Rightarrow> Some ''COMPACTING''
      | VMS_CONTINUING \<Rightarrow> Some ''CONTINUING''
      | VMS_DELETING_STATE \<Rightarrow> Some ''DELETING_STATE''
      | VMS_MIGRATING \<Rightarrow> Some ''MIGRATING''
      | VMS_PAUSED \<Rightarrow> Some ''PAUSED''
      | VMS_PAUSING \<Rightarrow> Some ''PAUSING''
      | VMS_RESETTING \<Rightarrow> Some ''RESETTING''
      | VMS_RESTORING \<Rightarrow> Some ''RESTORING''
      | VMS_RESUMING \<Rightarrow> Some ''RESUMING''
      | VMS_RUNNING \<Rightarrow> Some ''RUNNING''
      | VMS_SNAPSHOTING \<Rightarrow> Some ''SNAPSHOTING''
      | VMS_STARTING \<Rightarrow> Some ''STARTING''
      | VMS_STOPPED \<Rightarrow> Some ''STOPPED''
      | VMS_STOPPING \<Rightarrow> Some ''STOPPING''
      | VMS_SUSPENDED \<Rightarrow> Some ''SUSPENDED''
      | VMS_SUSPENDING \<Rightarrow> Some ''SUSPENDING''
      | VMS_SUSPENDING_SYNC \<Rightarrow> Some ''SUSPENDING_SYNC''
      | VMS_UNLISTED \<Rightarrow> None)"

text \<open>\<open>LOG.info(... % PCS_STATE_NAMES[state])\<close>: only the dictionary lookup can fail.\<close>

definition log_state :: "vm_state \<Rightarrow> world \<Rightarrow> unit outcome \<times> world" where
  "log_state st s =
     (case PCS_STATE_NAMES st of None \<Rightarrow> (Exc KeyError, s) | Some _ \<Rightarrow> (Ret (), s))"

definition intermediate_states :: "vm_state list" where
  "intermediate_states =
     [VMS_COMPACTING, VMS_CONTINUING, VMS_DELETING_STATE, VMS_MIGRATING, VMS_PAUSING,
      VMS_RESETTING, VMS_RESTORING, VMS_RESUMING, VMS_SNAPSHOTING, VMS_STARTING,
      VMS_STOPPING, VMS_SUSPENDING, VMS_SUSPENDING_SYNC]"

text \<open>
  The \<open>while True\<close> loop of \<open>_wait_intermediate_state\<close>.  Each round takes one scripted
  answer, so the recursion is on the script; the loop itself has no bound.
\<close>

fun wait_rounds :: "vm_state list \<Rightarrow> event list \<Rightarrow> unit outcome \<times> vm_state list \<times> event list" where
  "wait_rounds [] tr = (Unfinished, [], tr)"
| "wait_rounds (state # rest) tr =
     (if state \<notin> set intermediate_states then (Ret (), rest, tr @ [Poll state])
      else case PCS_STATE_NAMES state of
             None \<Rightarrow> (Exc KeyError, rest, tr @ [Poll state])
           | Some _ \<Rightarrow> wait_rounds rest (tr @ [Poll state, Sleep 1]))"

definition wait_intermediate_state :: "world \<Rightarrow> unit outcome \<times> world" where
  "wait_intermediate_state s =
     (case wait_rounds (polls s) (trace s) of
        (r, ps, tr) \<Rightarrow> (r, s\<lparr>polls := ps, trace := tr\<rparr>))"

subsection \<open>The four reconciliation operations\<close>

definition set_started_state :: "env \<Rightarrow> ve \<Rightarrow> world \<Rightarrow> unit outcome \<times> world" where
  "set_started_state E v =
     then_do wait_intermediate_state (\<lambda>_.
     then_do get_state (\<lambda>state.
     then_do (log_state state) (\<lambda>_.
       if state = VMS_STOPPED then start E v
       else if state = VMS_SUSPENDED then resume E v
       else if state = VMS_PAUSED then unpause E v
       else ret ())))"

definition set_stopped_state :: "env \<Rightarrow> ve \<Rightarrow> bool \<Rightarrow> world \<Rightarrow> unit outcome \<times> world" where
  "set_stopped_state E v kill =
     then_do wait_intermediate_state (\<lambda>_.
     then_do get_state (\<lambda>state.
     then_do (log_state state) (\<lambda>_.
       if state = VMS_RUNNING then stop E v kill
       else if state = VMS_SUSPENDED then then_do (resume E v) (\<lambda>_. stop E v kill)
       else if state = VMS_PAUSED then then_do (unpause E v) (\<lambda>_. stop E v kill)
       else ret ())))"

definition set_paused_state :: "env \<Rightarrow> ve \<Rightarrow> world \<Rightarrow> unit outcome \<times> world" where
  "set_paused_state E v =
     then_do wait_intermediate_state (\<lambda>_.
     then_do get_state (\<lambda>state.
     then_do (log_state state) (\<lambda>_.
       if state = VMS_RUNNING then pause E v
       else if state = VMS_SUSPENDED then then_do (resume E v) (\<lambda>_. pause E v)
       else if state = VMS_STOPPED then then_do (start E v) (\<lambda>_. pause E v)
       else ret ())))"

definition set_suspended_state :: "env \<Rightarrow> ve \<Rightarrow> world \<Rightarrow> unit outcome \<times> world" where
  "set_suspended_state E v =
     then_do wait_intermediate_state (\<lambda>_.
     then_do get_state (\<lambda>state.
     then_do (log_state state) (\<lambda>_.
       if state = VMS_RUNNING then suspend E v
       else if state = VMS_PAUSED then then_do (unpause E v) (\<lambda>_. suspend E v)
       else if state = VMS_STOPPED then then_do (start E v) (\<lambda>_. suspend E v)
       else ret ())))"

subsection \<open>The state-sync dispatcher\<close>

text \<open>
  The values of \<open>nova.compute.power_state\<close> (an external module): the requested state of
  an instance is one of these integers.
\<close>

definition NOSTATE :: int where "NOSTATE = 0"
definition RUNNING :: int where "RUNNING = 1"
definition PAUSED :: int where "PAUSED = 3"
definition SHUTDOWN :: int where "SHUTDOWN = 4"
definition CRASHED :: int where "CRASHED = 6"
definition SUSPENDED :: int where "SUSPENDED = 7"

record nova_instance =
  inst_name :: string
  inst_power_state :: int

definition sync_ve_state :: "env \<Rightarrow> ve \<Rightarrow> nova_instance \<Rightarrow> world \<Rightarrow> unit outcome \<times> world" where
  "sync_ve_state E v inst =
     (let req_state = inst_power_state inst in
      if req_state = NOSTATE then ret ()
      else if req_state = RUNNING then set_started_state E v
      else if req_state = PAUSED then set_paused_state E v
      else if req_state = SHUTDOWN then set_stopped_state E v False
      else if req_state = CRASHED then set_stopped_state E v True
      else if req_state = SUSPENDED then set_suspended_state E v
      else ret ())"

subsection \<open>Network interfaces and volumes (collaborators)\<close>

definition vif_plug :: "env \<Rightarrow> string \<Rightarrow> world \<Rightarrow> unit outcome \<times> world" where
  "vif_plug E vif s =
     (let s' = s\<lparr>trace := trace s @ [VifPlug vif]\<rparr>
      in if vif_error E vif then (Exc (VifError vif), s') else (Ret (), s'))"

definition vif_unplug :: "env \<Rightarrow> string \<Rightarrow> world \<Rightarrow> unit outcome \<times> world" where
  "vif_unplug E vif s =
     (let s' = s\<lparr>trace := trace s @ [VifUnplug vif]\<rparr>
      in if vif_error E vif then (Exc (VifError vif), s') else (Ret (), s'))"

fun plug_vifs' :: "env \<Rightarrow> string list \<Rightarrow> world \<Rightarrow> unit outcome \<times> world" where
  "plug_vifs' E [] = ret ()"
| "plug_vifs' E (vif # network_info) = then_do (vif_plug E vif) (\<lambda>_. plug_vifs' E network_info)"

fun unplug_vifs' :: "env \<Rightarrow> string list \<Rightarrow> world \<Rightarrow> unit outcome \<times> world" where
  "unplug_vifs' E [] = ret ()"
| "unplug_vifs' E (vif # network_info) =
     then_do (vif_unplug E vif) (\<lambda>_. unplug_vifs' E network_info)"

record volume =
  driver_volume_type :: string
  mount_device :: string

definition disconnect_volume :: "env \<Rightarrow> volume \<Rightarrow> world \<Rightarrow> unit outcome \<times> world" where
  "disconnect_volume E vol s =
     (if driver_volume_type vol \<notin> set (volume_drivers E)
      then (Exc (VolumeDriverNotFound (driver_volume_type vol)), s)
      else
        let s' = s\<lparr>trace := trace s @
                   [VolumeDisconnect (driver_volume_type vol) (mount_device vol)]\<rparr>
        in if volume_error E (mount_device vol) then (Exc (VolumeError (mount_device vol)), s')
           else (Ret (), s'))"

fun disconnect_volumes :: "env \<Rightarrow> volume list \<Rightarrow> world \<Rightarrow> unit outcome \<times> world" where
  "disconnect_volumes E [] = ret ()"
| "disconnect_volumes E (vol # vols) =
     then_do (disconnect_volume E vol) (\<lambda>_. disconnect_volumes E vols)"

subsection \<open>The public operations of \<open>PCSDriver\<close>\<close>

text \<open>
  A private method \<open>_m\<close> of the class is modelled under the name \<open>m\<close> (or \<open>m'\<close> where a
  public method has that name), a public method \<open>m\<close> under \<open>PCSDriver_m\<close>.
\<close>

definition instance_exists :: "env \<Rightarrow> string \<Rightarrow> world \<Rightarrow> bool outcome \<times> world" where
  "instance_exists E instance_id =
     try_except (then_do (get_ve_by_name E instance_id) (\<lambda>_. ret True))
       (\<lambda>e. case e of InstanceNotFound _ \<Rightarrow> ret False | _ \<Rightarrow> raise e)"

definition PCSDriver_plug_vifs ::
  "env \<Rightarrow> nova_instance \<Rightarrow> string list \<Rightarrow> world \<Rightarrow> unit outcome \<times> world" where
  "PCSDriver_plug_vifs E inst network_info =
     then_do (instance_exists E (inst_name inst)) (\<lambda>ex.
       if \<not> ex then ret ()
       else
         then_do (get_ve_by_name E (inst_name inst)) (\<lambda>sdk_ve.
         then_do get_state (\<lambda>st.
           if st \<in> set [VMS_RUNNING, VMS_PAUSED] then plug_vifs' E network_info
           else ret ())))"

definition PCSDriver_unplug_vifs ::
  "env \<Rightarrow> nova_instance \<Rightarrow> string list \<Rightarrow> world \<Rightarrow> unit outcome \<times> world" where
  "PCSDriver_unplug_vifs E inst network_info =
     then_do (get_ve_by_name E (inst_name inst)) (\<lambda>sdk_ve. unplug_vifs' E network_info)"

definition PCSDriver_destroy ::
  "env \<Rightarrow> nova_instance \<Rightarrow> string list \<Rightarrow> volume list \<Rightarrow> world \<Rightarrow> unit outcome \<times> world" where
  "PCSDriver_destroy E inst network_info block_device_mapping s =
     (case get_ve_by_name E (inst_name inst) s of
        (Exc (InstanceNotFound _), s') \<Rightarrow> (Ret (), s')
      | (Exc e, s') \<Rightarrow> (Exc e, s')
      | (Unfinished, s') \<Rightarrow> (Unfinished, s')
      | (Ret sdk_ve, s') \<Rightarrow>
          then_do (unplug_vifs' E network_info) (\<lambda>_.
          then_do (set_stopped_state E sdk_ve True) (\<lambda>_.
          then_do (disconnect_volumes E block_device_mapping) (\<lambda>_.
            sdk_call E sdk_ve Op_delete))) s')"

definition PCS_POWER_STATE :: "vm_state \<Rightarrow> int option" where
  "PCS_POWER_STATE st =
     (case st of
        VMS_COMPACTING \<Rightarrow> Some NOSTATE
      | VMS_CONTINUING \<Rightarrow> Some NOSTATE
      | VMS_DELETING_STATE \<Rightarrow> Some NOSTATE
      | VMS_MIGRATING \<Rightarrow> Some NOSTATE
      | VMS_PAUSED \<Rightarrow> Some PAUSED
      | VMS_PAUSING \<Rightarrow> Some RUNNING
      | VMS_RESETTING \<Rightarrow> Some RUNNING
      | VMS_RESTORING \<Rightarrow> Some NOSTATE
      | VMS_RESUMING \<Rightarrow> Some NOSTATE
      | VMS_RUNNING \<Rightarrow> Some RUNNING
      | VMS_SNAPSHOTING \<Rightarrow> Some RUNNING
      | VMS_STARTING \<Rightarrow> Some RUNNING
      | VMS_STOPPED \<Rightarrow> Some SHUTDOWN
      | VMS_STOPPING \<Rightarrow> Some RUNNING
      | VMS_SUSPENDED \<Rightarrow> Some SUSPENDED
      | VMS_SUSPENDING \<Rightarrow> Some RUNNING
      | VMS_SUSPENDING_SYNC \<Rightarrow> Some NOSTATE
      | VMS_UNLISTED \<Rightarrow> None)"

record info =
  info_state :: int
  info_max_mem :: nat
  info_mem :: nat
  info_num_cpu :: nat
  info_cpu_time :: nat

definition PCSDriver_get_info :: "env \<Rightarrow> nova_instance \<Rightarrow> world \<Rightarrow> info outcome \<times> world" where
  "PCSDriver_get_info E inst =
     then_do (get_ve_by_name E (inst_name inst)) (\<lambda>sdk_ve.
     then_do get_state (\<lambda>st.
       case PCS_POWER_STATE st of
         None \<Rightarrow> raise KeyError
       | Some ps \<Rightarrow>
           ret \<lparr>info_state = ps, info_max_mem = ram_size sdk_ve, info_mem = ram_size sdk_ve,
                info_num_cpu = cpu_count sdk_ve, info_cpu_time = 1000\<rparr>))"

definition PCSDriver_reboot ::
  "env \<Rightarrow> nova_instance \<Rightarrow> string list \<Rightarrow> string \<Rightarrow> world \<Rightarrow> unit outcome \<times> world" where
  "PCSDriver_reboot E inst network_info reboot_type =
     then_do (get_ve_by_name E (inst_name inst)) (\<lambda>sdk_ve.
     then_do get_state (\<lambda>st.
     then_do
       (if st = VMS_RUNNING \<and> reboot_type = ''SOFT'' then sdk_call E sdk_ve Op_restart
        else
          let kill = \<not> (reboot_type = ''SOFT'') in
          then_do (set_stopped_state E sdk_ve kill) (\<lambda>_. set_started_state E sdk_ve))
       (\<lambda>_. plug_vifs' E network_info)))"

definition PCSDriver_suspend :: "env \<Rightarrow> nova_instance \<Rightarrow> world \<Rightarrow> unit outcome \<times> world" where
  "PCSDriver_suspend E inst =
     then_do (get_ve_by_name E (inst_name inst)) (\<lambda>sdk_ve. set_suspended_state E sdk_ve)"

definition PCSDriver_resume ::
  "env \<Rightarrow> nova_instance \<Rightarrow> string list \<Rightarrow> world \<Rightarrow> unit outcome \<times> world" where
  "PCSDriver_resume E inst network_info =
     then_do (get_ve_by_name E (inst_name inst)) (\<lambda>sdk_ve.
     then_do (set_started_state E sdk_ve) (\<lambda>_. plug_vifs' E network_info))"

definition PCSDriver_pause :: "env \<Rightarrow> nova_instance \<Rightarrow> world \<Rightarrow> unit outcome \<times> world" where
  "PCSDriver_pause E inst =
     then_do (get_ve_by_name E (inst_name inst)) (\<lambda>sdk_ve.
       if ve_vm_type sdk_ve \<noteq> PVT_VM then raise NotImplementedError
       else set_paused_state E sdk_ve)"

definition PCSDriver_unpause :: "env \<Rightarrow> nova_instance \<Rightarrow> world \<Rightarrow> unit outcome \<times> world" where
  "PCSDriver_unpause E inst =
     then_do (get_ve_by_name E (inst_name inst)) (\<lambda>sdk_ve.
       if ve_vm_type sdk_ve \<noteq> PVT_VM then raise NotImplementedError
       else set_started_state E sdk_ve)"

definition PCSDriver_power_off :: "env \<Rightarrow> nova_instance \<Rightarrow> world \<Rightarrow> unit outcome \<times> world" where
  "PCSDriver_power_off E inst =
     then_do (get_ve_by_name E (inst_name inst)) (\<lambda>sdk_ve. set_stopped_state E sdk_ve False)"

definition PCSDriver_power_on ::
  "env \<Rightarrow> nova_instance \<Rightarrow> string list \<Rightarrow> world \<Rightarrow> unit outcome \<times> world" where
  "PCSDriver_power_on E inst network_info =
     then_do (get_ve_by_name E (inst_name inst)) (\<lambda>sdk_ve.
     then_do (set_started_state E sdk_ve) (\<lambda>_.
     then_do (unplug_vifs' E network_info) (\<lambda>_. plug_vifs' E network_info)))"

section \<open>utils.py\<close>

subsection \<open>Python's string formatting\<close>

definition hex_digit :: "nat \<Rightarrow> char" where
  "hex_digit n = ''0123456789abcdef'' ! (n mod 16)"

text \<open>\<open>repr\<close> of a Python 2 byte string.\<close>

definition repr_char :: "char \<Rightarrow> char \<Rightarrow> string" where
  "repr_char quote c =
     (if c = quote \<or> c = CHR 0x5C then [CHR 0x5C, c]
      else if c = CHR 0x09 then [CHR 0x5C, CHR ''t'']
      else if c = CHR 0x0A then [CHR 0x5C, CHR ''n'']
      else if c = CHR 0x0D then [CHR 0x5C, CHR ''r'']
      else if (of_char c :: nat) < 32 \<or> 127 \<le> (of_char c :: nat)
        then [CHR 0x5C, CHR ''x'', hex_digit (of_char c div 16), hex_digit (of_char c)]
      else [c])"

definition repr_str :: "string \<Rightarrow> string" where
  "repr_str str =
     (let quote = (if CHR 0x27 \<in> set str \<and> CHR 0x22 \<notin> set str then CHR 0x22 else CHR 0x27)
      in [quote] @ concat (map (repr_char quote) str) @ [quote])"

fun join_with :: "string \<Rightarrow> string list \<Rightarrow> string" where
  "join_with sep [] = []"
| "join_with sep [x] = x"
| "join_with sep (x # y # ys) = x @ sep @ join_with sep (y # ys)"

text \<open>\<open>'%r' % (cmd,)\<close> for a list of strings.\<close>

definition repr_list :: "string list \<Rightarrow> string" where
  "repr_list cmd = ''['' @ join_with '', '' (map repr_str cmd) @ '']''"

function dec :: "nat \<Rightarrow> string" where
  "dec n = (if n < 10 then [hex_digit n] else dec (n div 10) @ [hex_digit (n mod 10)])"
  by pat_completeness auto
termination
  by (relation "measure id") auto

declare dec.simps [simp del]

text \<open>\<open>'%d' % ret\<close>.\<close>

definition fmt_d :: "int \<Rightarrow> string" where
  "fmt_d i = (if i < 0 then ''-'' @ dec (nat (- i)) else dec (nat i))"

definition is_space :: "char \<Rightarrow> bool" where
  "is_space c \<longleftrightarrow> c \<in> set [CHR '' '', CHR 0x09, CHR 0x0A, CHR 0x0D, CHR 0x0C, CHR 0x0B]"

text \<open>\<open>re.search('dev=(\S+)', out)\<close>: the group of the leftmost match, if any.\<close>

fun search_dev :: "string \<Rightarrow> string option" where
  "search_dev [] = None"
| "search_dev (c # cs) =
     (if prefix ''dev='' (c # cs) \<and> takeWhile (\<lambda>x. \<not> is_space x) (drop 4 (c # cs)) \<noteq> []
      then Some (takeWhile (\<lambda>x. \<not> is_space x) (drop 4 (c # cs)))
      else search_dev cs)"

text \<open>\<open>os.path.join\<close> of two components and \<open>os.path.dirname\<close> (posixpath).\<close>

definition path_join :: "string \<Rightarrow> string \<Rightarrow> string" where
  "path_join a b =
     (if prefix ''/'' b then b
      else if a = [] \<or> suffix ''/'' a then a @ b
      else a @ ''/'' @ b)"

definition rstrip_slash :: "string \<Rightarrow> string" where
  "rstrip_slash p = rev (dropWhile (\<lambda>c. c = CHR ''/'') (rev p))"

definition dirname :: "string \<Rightarrow> string" where
  "dirname p =
     (let head = rev (dropWhile (\<lambda>c. c \<noteq> CHR ''/'') (rev p))
      in if head \<noteq> [] \<and> \<not> list_all (\<lambda>c. c = CHR ''/'') head then rstrip_slash head
         else head)"

definition strip :: "string \<Rightarrow> string" where
  "strip str = rev (dropWhile is_space (rev (dropWhile is_space str)))"

subsection \<open>Processes and files\<close>

text \<open>A started process is identified by its argument vector.\<close>

definition popen :: "env \<Rightarrow> string list \<Rightarrow> world \<Rightarrow> unit outcome \<times> world" where
  "popen E cmd s =
     (let s' = s\<lparr>trace := trace s @ [Popen cmd]\<rparr>
      in if popen_error E cmd then (Exc (OSError cmd), s') else (Ret (), s'))"

definition proc_wait :: "env \<Rightarrow> string list \<Rightarrow> world \<Rightarrow> int outcome \<times> world" where
  "proc_wait E cmd s = (Ret (exit_status E cmd), s\<lparr>trace := trace s @ [WaitProc cmd]\<rparr>)"

definition open_file :: "env \<Rightarrow> string \<Rightarrow> world \<Rightarrow> unit outcome \<times> world" where
  "open_file E path s =
     (let s' = s\<lparr>trace := trace s @ [OpenFile path]\<rparr>
      in if open_error E path then (Exc (IOError path), s') else (Ret (), s'))"

text \<open>
  The tail that \<open>compress_ploop\<close>, \<open>uncompress_ploop\<close> and \<open>CPloopUploader.wait\<close> share
  word for word: the message built from the two exit statuses.
\<close>

definition status_msg :: "string list \<Rightarrow> int \<Rightarrow> string list \<Rightarrow> int \<Rightarrow> string" where
  "status_msg cmd1 ret1 cmd2 ret2 =
     (let msg = [];
          msg = (if ret1 \<noteq> 0 then repr_list cmd1 @ '' returned '' @ fmt_d ret1 else msg);
          msg = (if ret2 \<noteq> 0 then msg @ '', '' @ repr_list cmd2 @ '' returned '' @ fmt_d ret2
                 else msg)
      in msg)"

definition wait_both ::
  "env \<Rightarrow> string list \<Rightarrow> string list \<Rightarrow> world \<Rightarrow> unit outcome \<times> world" where
  "wait_both E cmd1 cmd2 =
     then_do (proc_wait E cmd1) (\<lambda>ret1.
     then_do (proc_wait E cmd2) (\<lambda>ret2.
       let msg = status_msg cmd1 ret1 cmd2 ret2
       in if msg \<noteq> [] then raise (Exception msg) else ret ()))"

text \<open>
  In \<open>compress_ploop\<close> the local \<open>p1\<close> is bound only if the first \<open>Popen\<close> returned:
  the first handler closes the file and falls through.  A read of \<open>p1\<close> while it is
  unbound raises \<open>UnboundLocalError\<close>.
\<close>

definition compress_ploop :: "env \<Rightarrow> string \<Rightarrow> string \<Rightarrow> world \<Rightarrow> unit outcome \<times> world" where
  "compress_ploop E src dst =
     (let cmd1 = [''tar'', ''cO'', ''-C'', src, ''.''];
          cmd2 = [''prlcompress'', ''-p'']
      in
      then_do (open_file E dst) (\<lambda>_.
      then_do
        (try_except (then_do (popen E cmd1) (\<lambda>_. ret (Some cmd1)))
           (\<lambda>e. then_do (emit (CloseFile dst)) (\<lambda>_. ret None)))
        (\<lambda>p1.
      then_do
        (try_finally
           (try_except
              (case p1 of
                 None \<Rightarrow> raise (UnboundLocalError ''p1'')
               | Some p \<Rightarrow> popen E cmd2)
              (\<lambda>e. case p1 of
                      None \<Rightarrow> raise (UnboundLocalError ''p1'')
                    | Some p \<Rightarrow>
                        then_do (emit (Kill p)) (\<lambda>_.
                        then_do (proc_wait E p) (\<lambda>_. raise e))))
           (emit (CloseFile dst)))
        (\<lambda>_.
      case p1 of
        None \<Rightarrow> raise (UnboundLocalError ''p1'')
      | Some p \<Rightarrow> then_do (emit (ClosePipe p)) (\<lambda>_. wait_both E p cmd2)))))"

definition uncompress_ploop ::
  "env \<Rightarrow> string \<Rightarrow> string \<Rightarrow> string list \<Rightarrow> world \<Rightarrow> unit outcome \<times> world" where
  "uncompress_ploop E src dst helper =
     (let cmd1 = [''prlcompress'', ''-u''];
          cmd2 = helper @ [''tar'', ''x'', ''-C'', dst]
      in
      then_do (open_file E src) (\<lambda>_.
      then_do (try_finally (popen E cmd1) (emit (CloseFile src))) (\<lambda>_.
      then_do
        (try_except (popen E cmd2)
           (\<lambda>e. then_do (emit (Kill cmd1)) (\<lambda>_.
                 then_do (proc_wait E cmd1) (\<lambda>_. raise e))))
        (\<lambda>_.
      then_do (emit (ClosePipe cmd1)) (\<lambda>_. wait_both E cmd1 cmd2)))))"

record uploader =
  up_cmd1 :: "string list"
  up_cmd2 :: "string list"

definition CPloopUploader_start :: "env \<Rightarrow> string \<Rightarrow> world \<Rightarrow> uploader outcome \<times> world" where
  "CPloopUploader_start E hdd_path =
     (let cmd1 = [''tar'', ''cO'', ''-C'', hdd_path, ''.''];
          cmd2 = [''prlcompress'', ''-p'']
      in
      then_do (popen E cmd1) (\<lambda>_.
      then_do
        (try_except (popen E cmd2)
           (\<lambda>e. then_do (emit (Kill cmd1)) (\<lambda>_.
                 then_do (proc_wait E cmd1) (\<lambda>_. raise e))))
        (\<lambda>_.
      then_do (emit (ClosePipe cmd1)) (\<lambda>_.
        ret \<lparr>up_cmd1 = cmd1, up_cmd2 = cmd2\<rparr>))))"

definition CPloopUploader_wait :: "env \<Rightarrow> uploader \<Rightarrow> world \<Rightarrow> unit outcome \<times> world" where
  "CPloopUploader_wait E u = wait_both E (up_cmd1 u) (up_cmd2 u)"

subsection \<open>Boot disk lookup\<close>

text \<open>
  \<open>ve.get_dev_by_type(pc.PDE_HARD_DISK, i)\<close>: the hard disk at position \<open>i\<close>; the SDK
  rejects a position that is not there.
\<close>

definition get_hard_disk :: "ve \<Rightarrow> nat \<Rightarrow> exn + hdd" where
  "get_hard_disk v i =
     (if i < length (hard_disks v) then Inr (hard_disks v ! i)
      else Inl (PrlSDKError PRL_ERR_INVALID_ARG))"

definition get_ct_boot_disk :: "ve \<Rightarrow> exn + hdd" where
  "get_ct_boot_disk v =
     (let hdd_count = length (hard_disks v)
      in if hdd_count < 1 then Inl (Exception ''There are no hard disks in VE.'')
         else get_hard_disk v 0)"

fun vm_boot_scan :: "ve \<Rightarrow> boot_dev list \<Rightarrow> exn + hdd" where
  "vm_boot_scan v [] = Inl (Exception (''Can'' @ [CHR 0x27] @ ''t find boot hard disk.''))"
| "vm_boot_scan v (bootdev # rest) =
     (if bd_type bootdev \<noteq> PDE_HARD_DISK then vm_boot_scan v rest
      else get_hard_disk v (bd_index bootdev))"

definition get_vm_boot_disk :: "ve \<Rightarrow> exn + hdd" where
  "get_vm_boot_disk v = vm_boot_scan v (boot_devs v)"

definition get_boot_disk :: "ve \<Rightarrow> exn + hdd" where
  "get_boot_disk v =
     (if ve_vm_type v = PVT_VM then get_vm_boot_disk v else get_ct_boot_disk v)"

subsection \<open>Format conversion\<close>

text \<open>
  The parameter \<open>helper\<close> of \<open>convert_image\<close> and \<open>uncompress_ploop\<close> is the list
  \<open>shlex.split(root_helper)\<close>: the root helper already split into words.
\<close>

definition getstatusoutput ::
  "env \<Rightarrow> string list \<Rightarrow> world \<Rightarrow> (int \<times> string) outcome \<times> world" where
  "getstatusoutput E cmd =
     then_do (popen E cmd) (\<lambda>_.
     then_do (emit (ReadAll cmd)) (\<lambda>_.
     then_do (proc_wait E cmd) (\<lambda>r. ret (r, stdout_of E cmd))))"

definition system_exc :: "env \<Rightarrow> string list \<Rightarrow> world \<Rightarrow> unit outcome \<times> world" where
  "system_exc E cmd =
     then_do (popen E cmd) (\<lambda>_.
     then_do (proc_wait E cmd) (\<lambda>r.
       if r \<noteq> 0
       then raise (Exception ([CHR 0x27] @ repr_list cmd @ [CHR 0x27] @ '' returned '' @ fmt_d r))
       else ret ()))"

definition convert_image ::
  "env \<Rightarrow> string \<Rightarrow> string \<Rightarrow> string \<Rightarrow> string list \<Rightarrow> world \<Rightarrow> unit outcome \<times> world" where
  "convert_image E src dst disk_format helper =
     (let dd_path = path_join src ''DiskDescriptor.xml'';
          cmd = helper @ [''ploop'', ''mount'', dd_path]
      in
      then_do (getstatusoutput E cmd) (\<lambda>(r, out).
        try_finally
          (case search_dev out of
             None \<Rightarrow>
               raise (Exception (''Invalid output from '' @ repr_list cmd @ '': '' @ out))
           | Some ploop_dev \<Rightarrow>
               system_exc E (helper @ [''qemu-img'', ''convert'', ''-f'', ''raw'', ''-O'',
                                       disk_format, ploop_dev, dst]))
          (system_exc E (helper @ [''ploop'', ''umount'', dd_path]))))"

section \<open>driver.py: snapshot\<close>

definition lift :: "exn + 'a \<Rightarrow> world \<Rightarrow> 'a outcome \<times> world" where
  "lift r s = (case r of Inl e \<Rightarrow> (Exc e, s) | Inr a \<Rightarrow> (Ret a, s))"

definition image_show :: "env \<Rightarrow> string \<Rightarrow> world \<Rightarrow> string outcome \<times> world" where
  "image_show E image_id s =
     (let s' = s\<lparr>trace := trace s @ [ImageShow image_id]\<rparr>
      in case image_name E image_id of
           None \<Rightarrow> (Exc ImageServiceError, s')
         | Some n \<Rightarrow> (Ret n, s'))"

definition upload :: "env \<Rightarrow> string \<Rightarrow> image_metadata \<Rightarrow> world \<Rightarrow> unit outcome \<times> world" where
  "upload E image_id metadata s =
     (let s' = s\<lparr>trace := trace s @ [ImageUpdate image_id metadata]\<rparr>
      in if image_update_error E image_id then (Exc ImageServiceError, s') else (Ret (), s'))"

definition update_task_state :: "env \<Rightarrow> string \<Rightarrow> world \<Rightarrow> unit outcome \<times> world" where
  "update_task_state E task_state s =
     (let s' = s\<lparr>trace := trace s @ [TaskState task_state]\<rparr>
      in if callback_error E task_state then (Exc CallbackError, s') else (Ret (), s'))"

definition execute :: "env \<Rightarrow> string list \<Rightarrow> world \<Rightarrow> string outcome \<times> world" where
  "execute E cmd s =
     (let s' = s\<lparr>trace := trace s @ [Execute cmd]\<rparr>
      in if execute_error E cmd then (Exc (ProcessExecutionError cmd), s')
         else (Ret (stdout_of E cmd), s'))"

definition unlink :: "env \<Rightarrow> string \<Rightarrow> world \<Rightarrow> unit outcome \<times> world" where
  "unlink E path s =
     (let s' = s\<lparr>trace := trace s @ [Unlink path]\<rparr>
      in if unlink_error E path then (Exc (OSError [path]), s') else (Ret (), s'))"

text \<open>\<open>with open(path) as f: body\<close>: the file is closed however the body ends.\<close>

definition with_open ::
  "env \<Rightarrow> string \<Rightarrow> (world \<Rightarrow> 'a outcome \<times> world) \<Rightarrow> world \<Rightarrow> 'a outcome \<times> world" where
  "with_open E path body =
     then_do (open_file E path) (\<lambda>_. try_finally body (emit (CloseFile path)))"

definition snapshot_ve ::
  "env \<Rightarrow> string \<Rightarrow> ve \<Rightarrow> world \<Rightarrow> unit outcome \<times> world" where
  "snapshot_ve E image_id v =
     then_do (image_show E image_id) (\<lambda>snapshot_name.
       let disk_format = pcs_snapshot_disk_format E;
           vm_mode = (if ve_vm_type v = PVT_VM then ''hvm'' else ''exe'')
       in
       then_do (update_task_state E ''image_uploading'') (\<lambda>_.
       then_do (lift (get_boot_disk v)) (\<lambda>hdd.
         let hdd_path = image_path hdd;
             metadata = \<lparr>md_name = snapshot_name, md_disk_format = disk_format,
                         md_vm_mode = vm_mode, md_pcs_ostemplate = os_template v,
                         md_pcs_disk_descriptor = None\<rparr>
         in
         if disk_format = ''ploop'' then
           (let xml_path = path_join hdd_path ''DiskDescriptor.xml'';
                cmd = [''ploop'', ''snapshot-list'', ''-H'', ''-o'', ''fname'', xml_path]
            in
            then_do (execute E cmd) (\<lambda>out.
              let image_file = strip out in
              then_do (with_open E xml_path
                         (ret (filter (\<lambda>c. c \<noteq> CHR 0x0A) (file_content E xml_path))))
                (\<lambda>descr.
              with_open E image_file
                (upload E image_id (metadata\<lparr>md_pcs_disk_descriptor := Some descr\<rparr>)))))
         else if disk_format = ''cploop'' then
           then_do (CPloopUploader_start E hdd_path) (\<lambda>u.
             try_finally (upload E image_id metadata) (CPloopUploader_wait E u))
         else
           (let dst = mktemp E (dirname hdd_path) in
            then_do (convert_image E hdd_path dst disk_format (root_helper E)) (\<lambda>_.
            then_do (with_open E dst (upload E image_id metadata)) (\<lambda>_.
              unlink E dst))))))"

definition PCSDriver_snapshot ::
  "env \<Rightarrow> nova_instance \<Rightarrow> string \<Rightarrow> world \<Rightarrow> unit outcome \<times> world" where
  "PCSDriver_snapshot E inst image_id =
     then_do (get_ve_by_name E (inst_name inst)) (\<lambda>sdk_ve.
     then_do (update_task_state E ''image_pending_upload'') (\<lambda>_.
       let tmpl_ve_name = ''tmpl-'' @ image_id in
       then_do (sdk_call E sdk_ve (Op_clone_ex tmpl_ve_name (pcs_snapshot_dir E))) (\<lambda>_.
         let tmpl_ve = (clone_param E)\<lparr>ve_name := tmpl_ve_name\<rparr>;
             ve_dir = (if ve_vm_type tmpl_ve = PVT_VM then dirname (home_path tmpl_ve)
                       else home_path tmpl_ve)
         in
         then_do (execute E [''chown'', ''-R'', ''nova:nova'', ve_dir]) (\<lambda>_.
           try_finally (snapshot_ve E image_id tmpl_ve)
             (sdk_call E tmpl_ve Op_delete)))))"

section \<open>The vocabulary of the specification\<close>

subsection \<open>The reconciliation table of section 4.1\<close>

text \<open>
  The four terminal states, the four targets, and the table as the specification prints
  it, cell by cell.  \<open>reconcile\<close> is the specification's name for the operation the
  driver runs for a target; the stop mode is the caller's \<open>kill\<close> argument.
\<close>

datatype terminal = Stopped | Running | Paused | Suspended

definition terminal_state :: "terminal \<Rightarrow> vm_state" where
  "terminal_state obs =
     (case obs of Stopped \<Rightarrow> VMS_STOPPED | Running \<Rightarrow> VMS_RUNNING
      | Paused \<Rightarrow> VMS_PAUSED | Suspended \<Rightarrow> VMS_SUSPENDED)"

datatype target = To_Running | To_Stopped | To_Paused | To_Suspended

definition reconcile :: "env \<Rightarrow> ve \<Rightarrow> target \<Rightarrow> bool \<Rightarrow> world \<Rightarrow> unit outcome \<times> world" where
  "reconcile E v tgt kill =
     (case tgt of
        To_Running \<Rightarrow> set_started_state E v
      | To_Stopped \<Rightarrow> set_stopped_state E v kill
      | To_Paused \<Rightarrow> set_paused_state E v
      | To_Suspended \<Rightarrow> set_suspended_state E v)"

datatype table_action = A_start | A_stop | A_pause | A_suspend | A_resume

fun table :: "terminal \<Rightarrow> target \<Rightarrow> table_action list" where
  "table Stopped To_Running = [A_start]"
| "table Stopped To_Stopped = []"
| "table Stopped To_Paused = [A_start, A_pause]"
| "table Stopped To_Suspended = [A_start, A_suspend]"
| "table Running To_Running = []"
| "table Running To_Stopped = [A_stop]"
| "table Running To_Paused = [A_pause]"
| "table Running To_Suspended = [A_suspend]"
| "table Paused To_Running = [A_resume]"
| "table Paused To_Stopped = [A_resume, A_stop]"
| "table Paused To_Paused = []"
| "table Paused To_Suspended = [A_resume, A_suspend]"
| "table Suspended To_Running = [A_resume]"
| "table Suspended To_Stopped = [A_resume, A_stop]"
| "table Suspended To_Paused = [A_resume, A_pause]"
| "table Suspended To_Suspended = []"

text \<open>
  The SDK call behind each word of the table.  The Paused row's "resume" is the table's
  own "resume(=start)": un-pausing is a \<open>start\<close> call; on a suspended VE it is the
  \<open>resume\<close> call.
\<close>

definition realise :: "terminal \<Rightarrow> bool \<Rightarrow> table_action \<Rightarrow> sdk_op" where
  "realise obs kill a =
     (case a of
        A_start \<Rightarrow> Op_start
      | A_stop \<Rightarrow> Op_stop_ex (if kill then PSM_KILL else PSM_ACPI) PSF_FORCE
      | A_pause \<Rightarrow> Op_pause
      | A_suspend \<Rightarrow> Op_suspend
      | A_resume \<Rightarrow> (if obs = Paused then Op_start else Op_resume))"

definition awaited :: "string \<Rightarrow> sdk_op list \<Rightarrow> event list" where
  "awaited n ops = concat (map (\<lambda>op. [Issue n op, Await n op]) ops)"

definition transitional :: "vm_state \<Rightarrow> bool" where
  "transitional st \<longleftrightarrow> st \<in> set intermediate_states"


definition waits :: "vm_state list \<Rightarrow> event list" where
  "waits pre = concat (map (\<lambda>st. [Poll st, Sleep 1]) pre)"


subsection \<open>A fake hypervisor for concrete runs\<close>

definition demo_ve :: ve where
  "demo_ve =
     \<lparr>ve_name = ''vm1'', ve_vm_type = PVT_VM, ram_size = 512, cpu_count = 2,
      hard_disks = [\<lparr>hdd_index = 0, image_path = ''/vz/vm1/harddisk.hdd''\<rparr>],
      boot_devs = [\<lparr>bd_type = PDE_OPTICAL_DISK, bd_index = 0\<rparr>,
                   \<lparr>bd_type = PDE_HARD_DISK, bd_index = 0\<rparr>],
      home_path = ''/vz/vm1/config.pvs'', os_template = ''centos-6''\<rparr>"

definition demo_ct :: ve where
  "demo_ct = demo_ve\<lparr>ve_name := ''ct1'', ve_vm_type := PVT_CT, boot_devs := [],
                     home_path := ''/vz/private/101''\<rparr>"

definition demo_env :: env where
  "demo_env =
     \<lparr>vm_config = (\<lambda>n. if n = ''vm1'' then Inr demo_ve
                        else if n = ''ct1'' then Inr demo_ct
                        else Inl PRL_ERR_VM_UUID_NOT_FOUND),
      job_error = (\<lambda>_. None),
      clone_param = demo_ve,
      vif_error = (\<lambda>_. False),
      volume_drivers = [''local'', ''iscsi'', ''pstorage''],
      volume_error = (\<lambda>_. False),
      callback_error = (\<lambda>_. False),
      execute_error = (\<lambda>_. False),
      popen_error = (\<lambda>_. False),
      exit_status = (\<lambda>_. 0),
      stdout_of = (\<lambda>_. ''Adding delta dev=/dev/ploop12345 img=/vz/vm1/root.hds'' @ [CHR 0x0A]),
      open_error = (\<lambda>_. False),
      file_content = (\<lambda>_. ''<Parallels_disk_image/>'' @ [CHR 0x0A]),
      unlink_error = (\<lambda>_. False),
      root_helper = [''sudo'', ''nova-rootwrap''],
      pcs_snapshot_disk_format = ''cploop'',
      pcs_snapshot_dir = ''/vz/openstack-snapshots'',
      image_name = (\<lambda>_. Some ''snap1''),
      image_update_error = (\<lambda>_. False),
      mktemp = (\<lambda>d. d @ ''/tmpA1b2C3'')\<rparr>"

subsection \<open>Pipe failures\<close>

text \<open>
  The message fragment for one failing stage: its argument vector and its exit code.
\<close>

definition fragment :: "string list \<Rightarrow> int \<Rightarrow> string" where
  "fragment cmd r = repr_list cmd @ '' returned '' @ fmt_d r"

text \<open>
  What an outcome of waiting on two stages must be, given their exit statuses: a normal
  return exactly when both are zero; otherwise one exception whose message holds the
  fragment of every failing stage, and is nothing but the other stage's fragment (after
  the separator, for the second stage) when one stage exited zero.
\<close>

definition reports :: "unit outcome \<Rightarrow> string list \<Rightarrow> int \<Rightarrow> string list \<Rightarrow> int \<Rightarrow> bool" where
  "reports r cmd1 ret1 cmd2 ret2 =
     (case r of
        Ret _ \<Rightarrow> ret1 = 0 \<and> ret2 = 0
      | Exc (Exception msg) \<Rightarrow>
          (ret1 \<noteq> 0 \<or> ret2 \<noteq> 0) \<and>
          (ret1 \<noteq> 0 \<longrightarrow> sublist (fragment cmd1 ret1) msg) \<and>
          (ret2 \<noteq> 0 \<longrightarrow> sublist (fragment cmd2 ret2) msg) \<and>
          (ret1 = 0 \<longrightarrow> msg = '', '' @ fragment cmd2 ret2) \<and>
          (ret2 = 0 \<longrightarrow> msg = fragment cmd1 ret1)
      | _ \<Rightarrow> False)"

subsection \<open>Boot disk\<close>

text \<open>The first entry of hard-disk type in the boot-device list, in the list's order.\<close>

definition first_hdd_boot_entry :: "ve \<Rightarrow> boot_dev option" where
  "first_hdd_boot_entry v = find (\<lambda>b. bd_type b = PDE_HARD_DISK) (boot_devs v)"

subsection \<open>A command run to completion\<close>

text \<open>
  How a \<open>system_exc\<close> call on \<open>cmd\<close> ends in a given environment: the exception it
  raises, if any, and the events it leaves.
\<close>

definition call_failure :: "env \<Rightarrow> string list \<Rightarrow> exn option" where
  "call_failure E cmd =
     (if popen_error E cmd then Some (OSError cmd)
      else if exit_status E cmd \<noteq> 0
        then Some (Exception ([CHR 0x27] @ repr_list cmd @ [CHR 0x27] @ '' returned '' @
                              fmt_d (exit_status E cmd)))
      else None)"

definition call_events :: "env \<Rightarrow> string list \<Rightarrow> event list" where
  "call_events E cmd = Popen cmd # (if popen_error E cmd then [] else [WaitProc cmd])"

subsection \<open>Clone deletion\<close>

fun is_delete :: "event \<Rightarrow> bool" where
  "is_delete (Issue _ Op_delete) = True"
| "is_delete _ = False"

text \<open>
  A computation is quiet when, from every world, it ends by returning or raising, leaves
  the poll script as it was and adds to the trace only events that are not the issue of a
  delete.
\<close>

definition quiet :: "(world \<Rightarrow> 'a outcome \<times> world) \<Rightarrow> bool" where
  "quiet m \<longleftrightarrow>
     (\<forall>s. case m s of
            (r, s') \<Rightarrow>
              r \<noteq> Unfinished \<and> polls s' = polls s \<and>
              (\<exists>evs. trace s' = trace s @ evs \<and> list_all (\<lambda>e. \<not> is_delete e) evs))"

text \<open>The directory of the clone that \<open>snapshot\<close> hands to \<open>chown\<close>.\<close>

definition clone_dir :: "env \<Rightarrow> string" where
  "clone_dir E =
     (if ve_vm_type (clone_param E) = PVT_VM then dirname (home_path (clone_param E))
      else home_path (clone_param E))"

section \<open>Properties\<close>

subsection \<open>Sequencing and the wait loop\<close>

lemma transitional_named: "transitional st \<Longrightarrow> PCS_STATE_NAMES st \<noteq> None"
  by (cases st) (simp_all add: transitional_def intermediate_states_def PCS_STATE_NAMES_def)

lemma wait_rounds_settles:
  "list_all transitional pre \<Longrightarrow> \<not> transitional t \<Longrightarrow>
   wait_rounds (pre @ t # rest) tr = (Ret (), rest, tr @ waits pre @ [Poll t])"
proof (induction pre arbitrary: tr)
  case Nil
  then show ?case by (simp add: transitional_def waits_def)
next
  case (Cons a pre)
  from Cons.prems have a: "transitional a" and p: "list_all transitional pre" by simp_all
  from transitional_named [OF a] obtain n where n: "PCS_STATE_NAMES a = Some n" by auto
  from a have "a \<in> set intermediate_states" by (simp add: transitional_def)
  then show ?case using Cons.IH [OF p Cons.prems(2)] n by (simp add: waits_def)
qed


lemma wait_intermediate_state_settles:
  "list_all transitional pre \<Longrightarrow> \<not> transitional t \<Longrightarrow>
   wait_intermediate_state \<lparr>polls = pre @ t # rest, trace = tr\<rparr> =
     (Ret (), \<lparr>polls = rest, trace = tr @ waits pre @ [Poll t]\<rparr>)"
  by (simp add: wait_intermediate_state_def wait_rounds_settles)


lemma sdk_call_ok:
  "job_error E op = None \<Longrightarrow>
   sdk_call E v op \<lparr>polls = ps, trace = tr\<rparr> =
     (Ret (), \<lparr>polls = ps, trace = tr @ [Issue (ve_name v) op, Await (ve_name v) op]\<rparr>)"
  by (simp add: sdk_call_def)

lemmas unary_defs = start_def stop_def suspend_def resume_def pause_def unpause_def

lemma wait_intermediate_state_now:
  "\<not> transitional t \<Longrightarrow>
   wait_intermediate_state \<lparr>polls = t # rest, trace = tr\<rparr> =
     (Ret (), \<lparr>polls = rest, trace = tr @ [Poll t]\<rparr>)"
  using wait_intermediate_state_settles [of "[]" t rest tr] by (simp add: waits_def)

lemmas reconcile_defs =
  set_started_state_def set_stopped_state_def set_paused_state_def set_suspended_state_def

text \<open>
  C1.  For each of the sixteen pairs of an observed terminal state and a target, the
  reconciliation operation for that target, run on a VE that reports the observed state
  at both of its polls, issues exactly the SDK calls of the table's cell, in the cell's
  order, each one awaited before the next is issued, and returns.  The jobs of the cell
  are taken to succeed.
\<close>

theorem reconcile_follows_table:
  assumes ok: "list_all (\<lambda>op. job_error E op = None) (map (realise obs kill) (table obs tgt))"
  shows "reconcile E v tgt kill
           \<lparr>polls = terminal_state obs # terminal_state obs # rest, trace = tr\<rparr> =
         (Ret (), \<lparr>polls = rest,
                   trace = tr @ [Poll (terminal_state obs), Poll (terminal_state obs)] @
                           awaited (ve_name v) (map (realise obs kill) (table obs tgt))\<rparr>)"
  using ok
  by (cases obs; cases tgt; cases kill)
     (simp_all add: reconcile_def reconcile_defs wait_intermediate_state_now get_state_def
        transitional_def intermediate_states_def
        log_state_def PCS_STATE_NAMES_def terminal_state_def realise_def awaited_def
        unary_defs sdk_call_ok then_do_def ret_def)

theorem reconcile_follows_table_witness:
  "reconcile demo_env demo_ve To_Stopped True
     \<lparr>polls = [VMS_SUSPENDED, VMS_SUSPENDED], trace = []\<rparr> =
   (Ret (), \<lparr>polls = [],
             trace = [Poll VMS_SUSPENDED, Poll VMS_SUSPENDED,
                      Issue ''vm1'' Op_resume, Await ''vm1'' Op_resume,
                      Issue ''vm1'' (Op_stop_ex PSM_KILL PSF_FORCE),
                      Await ''vm1'' (Op_stop_ex PSM_KILL PSF_FORCE)]\<rparr>)"
  using reconcile_follows_table
    [where E = demo_env and obs = Suspended and kill = True and tgt = To_Stopped
       and v = demo_ve and rest = "[]" and tr = "[]"]
  by (simp add: demo_env_def demo_ve_def realise_def awaited_def terminal_state_def)

subsection \<open>Waiting out transitional states\<close>






subsection \<open>Lookup failures\<close>

text \<open>\<open>unplug_vifs\<close> on a VE that the hypervisor does not know.\<close>

theorem unplug_vifs_absent_counterexample:
  "PCSDriver_unplug_vifs demo_env \<lparr>inst_name = ''gone'', inst_power_state = 1\<rparr> [''vif0'']
     \<lparr>polls = [], trace = []\<rparr> =
   (Exc (InstanceNotFound ''gone''), \<lparr>polls = [], trace = []\<rparr>)"
  by (simp add: PCSDriver_unplug_vifs_def then_do_def get_ve_by_name_def demo_env_def)

text \<open>
  C7 (amended).  A lookup that the SDK answers with \<open>PRL_ERR_VM_UUID_NOT_FOUND\<close> raises
  \<open>InstanceNotFound\<close>, any other SDK error code stays a \<open>PrlSDKError\<close>.  On an absent VE
  two public operations return normally, having done nothing: \<open>destroy\<close>, which catches
  \<open>InstanceNotFound\<close>, and \<open>plug_vifs\<close>, which asks \<open>instance_exists\<close> first (it
  answers \<open>False\<close>).  The operations \<open>unplug_vifs\<close>, \<open>get_info\<close>, \<open>suspend\<close>,
  \<open>resume\<close>, \<open>pause\<close>, \<open>unpause\<close>, \<open>power_off\<close>, \<open>power_on\<close>, \<open>reboot\<close> and
  \<open>snapshot\<close> raise \<open>InstanceNotFound\<close>, having done nothing.  A lookup failure of
  any other kind is let through by all of them, \<open>destroy\<close> and \<open>plug_vifs\<close> included.
\<close>

theorem not_found_handling:
  assumes look: "vm_config E (inst_name inst) = Inl code"
  shows "(code = PRL_ERR_VM_UUID_NOT_FOUND \<longrightarrow>
            get_ve_by_name E (inst_name inst) s = (Exc (InstanceNotFound (inst_name inst)), s) \<and>
            instance_exists E (inst_name inst) s = (Ret False, s) \<and>
            PCSDriver_destroy E inst network_info bdm s = (Ret (), s) \<and>
            PCSDriver_plug_vifs E inst network_info s = (Ret (), s) \<and>
            PCSDriver_unplug_vifs E inst network_info s =
              (Exc (InstanceNotFound (inst_name inst)), s) \<and>
            PCSDriver_get_info E inst s = (Exc (InstanceNotFound (inst_name inst)), s) \<and>
            PCSDriver_suspend E inst s = (Exc (InstanceNotFound (inst_name inst)), s) \<and>
            PCSDriver_resume E inst network_info s =
              (Exc (InstanceNotFound (inst_name inst)), s) \<and>
            PCSDriver_pause E inst s = (Exc (InstanceNotFound (inst_name inst)), s) \<and>
            PCSDriver_unpause E inst s = (Exc (InstanceNotFound (inst_name inst)), s) \<and>
            PCSDriver_power_off E inst s = (Exc (InstanceNotFound (inst_name inst)), s) \<and>
            PCSDriver_power_on E inst network_info s =
              (Exc (InstanceNotFound (inst_name inst)), s) \<and>
            PCSDriver_reboot E inst network_info reboot_type s =
              (Exc (InstanceNotFound (inst_name inst)), s) \<and>
            PCSDriver_snapshot E inst image_id s =
              (Exc (InstanceNotFound (inst_name inst)), s)) \<and>
         (code \<noteq> PRL_ERR_VM_UUID_NOT_FOUND \<longrightarrow>
            get_ve_by_name E (inst_name inst) s = (Exc (PrlSDKError code), s) \<and>
            instance_exists E (inst_name inst) s = (Exc (PrlSDKError code), s) \<and>
            PCSDriver_destroy E inst network_info bdm s = (Exc (PrlSDKError code), s) \<and>
            PCSDriver_plug_vifs E inst network_info s = (Exc (PrlSDKError code), s) \<and>
            PCSDriver_unplug_vifs E inst network_info s = (Exc (PrlSDKError code), s) \<and>
            PCSDriver_get_info E inst s = (Exc (PrlSDKError code), s) \<and>
            PCSDriver_suspend E inst s = (Exc (PrlSDKError code), s) \<and>
            PCSDriver_resume E inst network_info s = (Exc (PrlSDKError code), s) \<and>
            PCSDriver_pause E inst s = (Exc (PrlSDKError code), s) \<and>
            PCSDriver_unpause E inst s = (Exc (PrlSDKError code), s) \<and>
            PCSDriver_power_off E inst s = (Exc (PrlSDKError code), s) \<and>
            PCSDriver_power_on E inst network_info s = (Exc (PrlSDKError code), s) \<and>
            PCSDriver_reboot E inst network_info reboot_type s = (Exc (PrlSDKError code), s) \<and>
            PCSDriver_snapshot E inst image_id s = (Exc (PrlSDKError code), s))"
proof -
  have a: "code = PRL_ERR_VM_UUID_NOT_FOUND \<Longrightarrow>
           get_ve_by_name E (inst_name inst) s = (Exc (InstanceNotFound (inst_name inst)), s)"
    using look by (simp add: get_ve_by_name_def)
  have b: "code \<noteq> PRL_ERR_VM_UUID_NOT_FOUND \<Longrightarrow>
           get_ve_by_name E (inst_name inst) s = (Exc (PrlSDKError code), s)"
    using look by (simp add: get_ve_by_name_def)
  show ?thesis
    using a b
    by (simp add: PCSDriver_destroy_def PCSDriver_plug_vifs_def PCSDriver_unplug_vifs_def
          PCSDriver_get_info_def PCSDriver_suspend_def PCSDriver_resume_def PCSDriver_pause_def
          PCSDriver_unpause_def PCSDriver_power_off_def PCSDriver_power_on_def
          PCSDriver_reboot_def PCSDriver_snapshot_def instance_exists_def try_except_def
          then_do_def ret_def raise_def)
qed

theorem not_found_handling_witness:
  "PCSDriver_destroy demo_env \<lparr>inst_name = ''gone'', inst_power_state = 1\<rparr> [''vif0''] []
     \<lparr>polls = [VMS_RUNNING], trace = []\<rparr> = (Ret (), \<lparr>polls = [VMS_RUNNING], trace = []\<rparr>) \<and>
   PCSDriver_plug_vifs demo_env \<lparr>inst_name = ''gone'', inst_power_state = 1\<rparr> [''vif0'']
     \<lparr>polls = [VMS_RUNNING], trace = []\<rparr> = (Ret (), \<lparr>polls = [VMS_RUNNING], trace = []\<rparr>) \<and>
   PCSDriver_unplug_vifs demo_env \<lparr>inst_name = ''gone'', inst_power_state = 1\<rparr> [''vif0'']
     \<lparr>polls = [VMS_RUNNING], trace = []\<rparr> =
     (Exc (InstanceNotFound ''gone''), \<lparr>polls = [VMS_RUNNING], trace = []\<rparr>) \<and>
   PCSDriver_get_info demo_env \<lparr>inst_name = ''gone'', inst_power_state = 1\<rparr>
     \<lparr>polls = [VMS_RUNNING], trace = []\<rparr> =
     (Exc (InstanceNotFound ''gone''), \<lparr>polls = [VMS_RUNNING], trace = []\<rparr>)"
  using not_found_handling
    [where E = demo_env and inst = "\<lparr>inst_name = ''gone'', inst_power_state = 1\<rparr>"
       and code = PRL_ERR_VM_UUID_NOT_FOUND and s = "\<lparr>polls = [VMS_RUNNING], trace = []\<rparr>"
       and network_info = "[''vif0'']" and bdm = "[]"]
  by (simp add: demo_env_def)

subsection \<open>Pause on a container\<close>

text \<open>
  C8.  When the looked-up VE is not a full virtual machine, \<open>pause\<close> and \<open>unpause\<close>
  raise \<open>NotImplementedError\<close> and leave the world as it was: the state is never
  polled and no operation is issued, whatever the hypervisor would have reported.
\<close>

theorem pause_unsupported_on_container:
  assumes "vm_config E (inst_name inst) = Inr v" and "ve_vm_type v = PVT_CT"
  shows "PCSDriver_pause E inst s = (Exc NotImplementedError, s) \<and>
         PCSDriver_unpause E inst s = (Exc NotImplementedError, s)"
  using assms
  by (simp add: PCSDriver_pause_def PCSDriver_unpause_def then_do_def get_ve_by_name_def
        raise_def)

theorem pause_unsupported_on_container_witness:
  "PCSDriver_pause demo_env \<lparr>inst_name = ''ct1'', inst_power_state = 1\<rparr>
     \<lparr>polls = [VMS_RUNNING, VMS_RUNNING], trace = []\<rparr> =
     (Exc NotImplementedError, \<lparr>polls = [VMS_RUNNING, VMS_RUNNING], trace = []\<rparr>) \<and>
   PCSDriver_unpause demo_env \<lparr>inst_name = ''ct1'', inst_power_state = 1\<rparr>
     \<lparr>polls = [VMS_PAUSED, VMS_PAUSED], trace = []\<rparr> =
     (Exc NotImplementedError, \<lparr>polls = [VMS_PAUSED, VMS_PAUSED], trace = []\<rparr>)"
  using pause_unsupported_on_container
    [where E = demo_env and inst = "\<lparr>inst_name = ''ct1'', inst_power_state = 1\<rparr>"
       and v = demo_ct and s = "\<lparr>polls = [VMS_RUNNING, VMS_RUNNING], trace = []\<rparr>"]
    pause_unsupported_on_container
    [where E = demo_env and inst = "\<lparr>inst_name = ''ct1'', inst_power_state = 1\<rparr>"
       and v = demo_ct and s = "\<lparr>polls = [VMS_PAUSED, VMS_PAUSED], trace = []\<rparr>"]
  by (simp add: demo_env_def demo_ct_def)

subsection \<open>The state-sync dispatcher\<close>

text \<open>
  C10.  A request of \<open>CRASHED\<close> runs the stop reconciliation with \<open>kill = True\<close>; a
  request of \<open>NOSTATE\<close> returns at once and leaves the world untouched; so does a
  request of any value other than the six the dispatcher names.
\<close>

theorem sync_ve_state_requests:
  "(inst_power_state inst = CRASHED \<longrightarrow>
      sync_ve_state E v inst s = set_stopped_state E v True s) \<and>
   (inst_power_state inst = NOSTATE \<longrightarrow> sync_ve_state E v inst s = (Ret (), s)) \<and>
   (inst_power_state inst \<notin> set [NOSTATE, RUNNING, PAUSED, SHUTDOWN, CRASHED, SUSPENDED] \<longrightarrow>
      sync_ve_state E v inst s = (Ret (), s))"
  by (simp add: sync_ve_state_def ret_def NOSTATE_def RUNNING_def PAUSED_def SHUTDOWN_def
        CRASHED_def SUSPENDED_def)

theorem sync_ve_state_requests_witness:
  "sync_ve_state demo_env demo_ve \<lparr>inst_name = ''vm1'', inst_power_state = 6\<rparr>
     \<lparr>polls = [VMS_RUNNING, VMS_RUNNING], trace = []\<rparr> =
     (Ret (), \<lparr>polls = [],
               trace = [Poll VMS_RUNNING, Poll VMS_RUNNING,
                        Issue ''vm1'' (Op_stop_ex PSM_KILL PSF_FORCE),
                        Await ''vm1'' (Op_stop_ex PSM_KILL PSF_FORCE)]\<rparr>) \<and>
   sync_ve_state demo_env demo_ve \<lparr>inst_name = ''vm1'', inst_power_state = 0\<rparr>
     \<lparr>polls = [VMS_RUNNING, VMS_RUNNING], trace = []\<rparr> =
     (Ret (), \<lparr>polls = [VMS_RUNNING, VMS_RUNNING], trace = []\<rparr>) \<and>
   sync_ve_state demo_env demo_ve \<lparr>inst_name = ''vm1'', inst_power_state = 9\<rparr>
     \<lparr>polls = [VMS_RUNNING, VMS_RUNNING], trace = []\<rparr> =
     (Ret (), \<lparr>polls = [VMS_RUNNING, VMS_RUNNING], trace = []\<rparr>)"
  using sync_ve_state_requests
    [where E = demo_env and v = demo_ve
       and inst = "\<lparr>inst_name = ''vm1'', inst_power_state = 6\<rparr>"
       and s = "\<lparr>polls = [VMS_RUNNING, VMS_RUNNING], trace = []\<rparr>"]
    sync_ve_state_requests
    [where E = demo_env and v = demo_ve
       and inst = "\<lparr>inst_name = ''vm1'', inst_power_state = 0\<rparr>"
       and s = "\<lparr>polls = [VMS_RUNNING, VMS_RUNNING], trace = []\<rparr>"]
    sync_ve_state_requests
    [where E = demo_env and v = demo_ve
       and inst = "\<lparr>inst_name = ''vm1'', inst_power_state = 9\<rparr>"
       and s = "\<lparr>polls = [VMS_RUNNING, VMS_RUNNING], trace = []\<rparr>"]
  by (simp add: NOSTATE_def RUNNING_def PAUSED_def SHUTDOWN_def CRASHED_def SUSPENDED_def
        set_stopped_state_def wait_intermediate_state_now transitional_def
        intermediate_states_def then_do_def get_state_def log_state_def PCS_STATE_NAMES_def
        stop_def sdk_call_def demo_env_def demo_ve_def)

subsection \<open>Boot disk lookup\<close>

lemma vm_boot_scan_find:
  "vm_boot_scan v bs =
     (case find (\<lambda>b. bd_type b = PDE_HARD_DISK) bs of
        None \<Rightarrow> Inl (Exception (''Can'' @ [CHR 0x27] @ ''t find boot hard disk.''))
      | Some b \<Rightarrow> get_hard_disk v (bd_index b))"
  by (induction bs) simp_all

text \<open>
  C9.  For a full VM the lookup takes the first entry of hard-disk type in the
  boot-device list and returns the hard disk at that entry's index; when the list has no
  such entry it raises "Can't find boot hard disk.", and when the index names no hard
  disk the SDK's error is raised.  For a container it returns the first hard disk, and
  raises "There are no hard disks in VE." when there is none.  A device that is returned
  is always one of the VE's hard disks.
\<close>

theorem get_boot_disk_rules:
  "(ve_vm_type v = PVT_VM \<longrightarrow>
      (case first_hdd_boot_entry v of
         None \<Rightarrow>
           get_boot_disk v = Inl (Exception (''Can'' @ [CHR 0x27] @ ''t find boot hard disk.''))
       | Some b \<Rightarrow>
           if bd_index b < length (hard_disks v)
           then get_boot_disk v = Inr (hard_disks v ! bd_index b)
           else get_boot_disk v = Inl (PrlSDKError PRL_ERR_INVALID_ARG))) \<and>
   (ve_vm_type v = PVT_CT \<longrightarrow>
      (case hard_disks v of
         [] \<Rightarrow> get_boot_disk v = Inl (Exception ''There are no hard disks in VE.'')
       | d # _ \<Rightarrow> get_boot_disk v = Inr d)) \<and>
   (\<forall>d. get_boot_disk v = Inr d \<longrightarrow> d \<in> set (hard_disks v))"
proof (intro conjI impI allI)
  assume "ve_vm_type v = PVT_VM"
  then show "case first_hdd_boot_entry v of
         None \<Rightarrow>
           get_boot_disk v = Inl (Exception (''Can'' @ [CHR 0x27] @ ''t find boot hard disk.''))
       | Some b \<Rightarrow>
           if bd_index b < length (hard_disks v)
           then get_boot_disk v = Inr (hard_disks v ! bd_index b)
           else get_boot_disk v = Inl (PrlSDKError PRL_ERR_INVALID_ARG)"
    by (simp add: get_boot_disk_def get_vm_boot_disk_def vm_boot_scan_find
          first_hdd_boot_entry_def get_hard_disk_def split: option.splits)
next
  assume "ve_vm_type v = PVT_CT"
  then show "case hard_disks v of
         [] \<Rightarrow> get_boot_disk v = Inl (Exception ''There are no hard disks in VE.'')
       | d # _ \<Rightarrow> get_boot_disk v = Inr d"
    by (simp add: get_boot_disk_def get_ct_boot_disk_def get_hard_disk_def split: list.splits)
next
  fix d
  assume "get_boot_disk v = Inr d"
  then show "d \<in> set (hard_disks v)"
    by (auto simp add: get_boot_disk_def get_vm_boot_disk_def vm_boot_scan_find
          get_ct_boot_disk_def get_hard_disk_def Let_def
          split: option.splits if_splits)
qed

theorem get_boot_disk_rules_witness:
  "get_boot_disk demo_ve = Inr \<lparr>hdd_index = 0, image_path = ''/vz/vm1/harddisk.hdd''\<rparr> \<and>
   get_boot_disk (demo_ve\<lparr>boot_devs := [\<lparr>bd_type = PDE_OPTICAL_DISK, bd_index = 0\<rparr>]\<rparr>) =
     Inl (Exception (''Can'' @ [CHR 0x27] @ ''t find boot hard disk.'')) \<and>
   get_boot_disk demo_ct = Inr \<lparr>hdd_index = 0, image_path = ''/vz/vm1/harddisk.hdd''\<rparr> \<and>
   get_boot_disk (demo_ct\<lparr>hard_disks := []\<rparr>) =
     Inl (Exception ''There are no hard disks in VE.'')"
  using get_boot_disk_rules [of demo_ve]
    get_boot_disk_rules [of "demo_ve\<lparr>boot_devs := [\<lparr>bd_type = PDE_OPTICAL_DISK, bd_index = 0\<rparr>]\<rparr>"]
    get_boot_disk_rules [of demo_ct]
    get_boot_disk_rules [of "demo_ct\<lparr>hard_disks := []\<rparr>"]
  by (simp add: demo_ve_def demo_ct_def first_hdd_boot_entry_def)

subsection \<open>Exit statuses of a two-stage pipe\<close>

lemma fragment_not_empty: "fragment cmd r \<noteq> []"
  by (simp add: fragment_def)

lemma status_msg_cases:
  "status_msg cmd1 ret1 cmd2 ret2 =
     (if ret1 \<noteq> 0 then fragment cmd1 ret1 else []) @
     (if ret2 \<noteq> 0 then '', '' @ fragment cmd2 ret2 else [])"
  by (simp add: status_msg_def fragment_def)

lemma sublist_after_separator:
  "sublist x (p @ c # d # x)" "sublist x (c # d # x)"
  by (rule suffix_imp_sublist, simp add: suffix_def)+

lemma wait_both_reports:
  "\<exists>r. wait_both E cmd1 cmd2 s =
          (r, s\<lparr>trace := trace s @ [WaitProc cmd1, WaitProc cmd2]\<rparr>) \<and>
        reports r cmd1 (exit_status E cmd1) cmd2 (exit_status E cmd2)"
  by (simp add: wait_both_def then_do_def proc_wait_def status_msg_cases Let_def raise_def
        ret_def reports_def fragment_not_empty sublist_after_separator)


lemma popen_ok:
  "\<not> popen_error E cmd \<Longrightarrow> popen E cmd s = (Ret (), s\<lparr>trace := trace s @ [Popen cmd]\<rparr>)"
  by (simp add: popen_def)

lemma open_file_ok:
  "\<not> open_error E path \<Longrightarrow>
   open_file E path s = (Ret (), s\<lparr>trace := trace s @ [OpenFile path]\<rparr>)"
  by (simp add: open_file_def)

lemma compress_ploop_both_started:
  assumes "\<not> open_error E dst"
    and "\<not> popen_error E [''tar'', ''cO'', ''-C'', src, ''.'']"
    and "\<not> popen_error E [''prlcompress'', ''-p'']"
  shows "compress_ploop E src dst s =
         wait_both E [''tar'', ''cO'', ''-C'', src, ''.''] [''prlcompress'', ''-p'']
           (s\<lparr>trace := trace s @
                 [OpenFile dst, Popen [''tar'', ''cO'', ''-C'', src, ''.''],
                  Popen [''prlcompress'', ''-p''], CloseFile dst,
                  ClosePipe [''tar'', ''cO'', ''-C'', src, ''.'']]\<rparr>)"
  using assms
  by (simp add: compress_ploop_def then_do_def try_except_def try_finally_def open_file_ok
        popen_ok emit_def ret_def Let_def)

lemma uncompress_ploop_both_started:
  assumes "\<not> open_error E src"
    and "\<not> popen_error E [''prlcompress'', ''-u'']"
    and "\<not> popen_error E (helper @ [''tar'', ''x'', ''-C'', dst])"
  shows "uncompress_ploop E src dst helper s =
         wait_both E [''prlcompress'', ''-u''] (helper @ [''tar'', ''x'', ''-C'', dst])
           (s\<lparr>trace := trace s @
                 [OpenFile src, Popen [''prlcompress'', ''-u''], CloseFile src,
                  Popen (helper @ [''tar'', ''x'', ''-C'', dst]),
                  ClosePipe [''prlcompress'', ''-u'']]\<rparr>)"
  using assms
  by (simp add: uncompress_ploop_def then_do_def try_except_def try_finally_def open_file_ok
        popen_ok emit_def ret_def Let_def)

text \<open>
  C6.  Once both stages run, \<open>CPloopUploader.wait\<close> waits on the first and then on the
  second stage and either returns, when both exit statuses are zero, or raises one
  exception, when at least one is nonzero.  Its message holds, for every failing stage,
  the stage's argv and exit code; when one stage exited zero the message is the other
  stage's fragment alone (after the separator, for the second stage).  The tails of
  \<open>compress_ploop\<close> and \<open>uncompress_ploop\<close> do the same.
\<close>

theorem pipe_wait_reports_failing_stages:
  "(\<exists>r. CPloopUploader_wait E u s =
           (r, s\<lparr>trace := trace s @ [WaitProc (up_cmd1 u), WaitProc (up_cmd2 u)]\<rparr>) \<and>
         reports r (up_cmd1 u) (exit_status E (up_cmd1 u))
                   (up_cmd2 u) (exit_status E (up_cmd2 u))) \<and>
   (let cmd1 = [''tar'', ''cO'', ''-C'', src, ''.'']; cmd2 = [''prlcompress'', ''-p'']
    in \<not> open_error E dst \<and> \<not> popen_error E cmd1 \<and> \<not> popen_error E cmd2 \<longrightarrow>
       (\<exists>r. compress_ploop E src dst s =
               (r, s\<lparr>trace := trace s @
                        [OpenFile dst, Popen cmd1, Popen cmd2, CloseFile dst, ClosePipe cmd1,
                         WaitProc cmd1, WaitProc cmd2]\<rparr>) \<and>
             reports r cmd1 (exit_status E cmd1) cmd2 (exit_status E cmd2))) \<and>
   (let cmd1 = [''prlcompress'', ''-u'']; cmd2 = helper @ [''tar'', ''x'', ''-C'', dst]
    in \<not> open_error E src \<and> \<not> popen_error E cmd1 \<and> \<not> popen_error E cmd2 \<longrightarrow>
       (\<exists>r. uncompress_ploop E src dst helper s =
               (r, s\<lparr>trace := trace s @
                        [OpenFile src, Popen cmd1, CloseFile src, Popen cmd2, ClosePipe cmd1,
                         WaitProc cmd1, WaitProc cmd2]\<rparr>) \<and>
             reports r cmd1 (exit_status E cmd1) cmd2 (exit_status E cmd2)))"
proof (intro conjI)
  show "\<exists>r. CPloopUploader_wait E u s =
           (r, s\<lparr>trace := trace s @ [WaitProc (up_cmd1 u), WaitProc (up_cmd2 u)]\<rparr>) \<and>
         reports r (up_cmd1 u) (exit_status E (up_cmd1 u))
                   (up_cmd2 u) (exit_status E (up_cmd2 u))"
    unfolding CPloopUploader_wait_def by (rule wait_both_reports)
next
  show "let cmd1 = [''tar'', ''cO'', ''-C'', src, ''.'']; cmd2 = [''prlcompress'', ''-p'']
    in \<not> open_error E dst \<and> \<not> popen_error E cmd1 \<and> \<not> popen_error E cmd2 \<longrightarrow>
       (\<exists>r. compress_ploop E src dst s =
               (r, s\<lparr>trace := trace s @
                        [OpenFile dst, Popen cmd1, Popen cmd2, CloseFile dst, ClosePipe cmd1,
                         WaitProc cmd1, WaitProc cmd2]\<rparr>) \<and>
             reports r cmd1 (exit_status E cmd1) cmd2 (exit_status E cmd2))"
    using wait_both_reports
      [of E "[''tar'', ''cO'', ''-C'', src, ''.'']" "[''prlcompress'', ''-p'']"
          "s\<lparr>trace := trace s @
                 [OpenFile dst, Popen [''tar'', ''cO'', ''-C'', src, ''.''],
                  Popen [''prlcompress'', ''-p''], CloseFile dst,
                  ClosePipe [''tar'', ''cO'', ''-C'', src, ''.'']]\<rparr>"]
    by (simp add: compress_ploop_both_started Let_def)
next
  show "let cmd1 = [''prlcompress'', ''-u'']; cmd2 = helper @ [''tar'', ''x'', ''-C'', dst]
    in \<not> open_error E src \<and> \<not> popen_error E cmd1 \<and> \<not> popen_error E cmd2 \<longrightarrow>
       (\<exists>r. uncompress_ploop E src dst helper s =
               (r, s\<lparr>trace := trace s @
                        [OpenFile src, Popen cmd1, CloseFile src, Popen cmd2, ClosePipe cmd1,
                         WaitProc cmd1, WaitProc cmd2]\<rparr>) \<and>
             reports r cmd1 (exit_status E cmd1) cmd2 (exit_status E cmd2))"
    using wait_both_reports
      [of E "[''prlcompress'', ''-u'']" "helper @ [''tar'', ''x'', ''-C'', dst]"
          "s\<lparr>trace := trace s @
                 [OpenFile src, Popen [''prlcompress'', ''-u''], CloseFile src,
                  Popen (helper @ [''tar'', ''x'', ''-C'', dst]),
                  ClosePipe [''prlcompress'', ''-u'']]\<rparr>"]
    by (simp add: uncompress_ploop_both_started Let_def)
qed

theorem pipe_wait_reports_failing_stages_witness:
  "CPloopUploader_wait
     (demo_env\<lparr>exit_status := (\<lambda>cmd. if cmd = [''prlcompress'', ''-p''] then 2 else 0)\<rparr>)
     \<lparr>up_cmd1 = [''tar'', ''cO'', ''-C'', ''/vz/vm1/harddisk.hdd'', ''.''],
      up_cmd2 = [''prlcompress'', ''-p'']\<rparr>
     \<lparr>polls = [], trace = []\<rparr> =
   (Exc (Exception ('', ['' @ [CHR 0x27] @ ''prlcompress'' @ [CHR 0x27] @ '', '' @
                    [CHR 0x27] @ ''-p'' @ [CHR 0x27] @ ''] returned 2'')),
    \<lparr>polls = [],
     trace = [WaitProc [''tar'', ''cO'', ''-C'', ''/vz/vm1/harddisk.hdd'', ''.''],
              WaitProc [''prlcompress'', ''-p'']]\<rparr>)"
  using pipe_wait_reports_failing_stages
    [where E = "demo_env\<lparr>exit_status := (\<lambda>cmd. if cmd = [''prlcompress'', ''-p''] then 2 else 0)\<rparr>"
       and u = "\<lparr>up_cmd1 = [''tar'', ''cO'', ''-C'', ''/vz/vm1/harddisk.hdd'', ''.''],
                 up_cmd2 = [''prlcompress'', ''-p'']\<rparr>"
       and s = "\<lparr>polls = [], trace = []\<rparr>"]
  by (simp add: CPloopUploader_wait_def wait_both_def then_do_def proc_wait_def status_msg_def
        raise_def repr_list_def repr_str_def repr_char_def fmt_d_def dec.simps hex_digit_def
        Let_def demo_env_def)

subsection \<open>Format conversion\<close>

lemma system_exc_outcome:
  "system_exc E cmd s =
     ((case call_failure E cmd of None \<Rightarrow> Ret () | Some e \<Rightarrow> Exc e),
      s\<lparr>trace := trace s @ call_events E cmd\<rparr>)"
  by (simp add: system_exc_def then_do_def popen_def proc_wait_def raise_def ret_def
        call_failure_def call_events_def Let_def)

text \<open>
  A run in which \<open>qemu-img\<close> exits 1 and \<open>ploop umount\<close> exits 32: the exception
  that reaches the caller is the unmount's, and its message says nothing of \<open>qemu-img\<close>.
\<close>

theorem convert_image_both_fail_counterexample:
  "convert_image
     (demo_env\<lparr>exit_status :=
        (\<lambda>cmd. if ''qemu-img'' \<in> set cmd then 1 else if ''umount'' \<in> set cmd then 32 else 0)\<rparr>)
     ''/vz/vm1/harddisk.hdd'' ''/vz/vm1/tmpA1b2C3'' ''qcow2'' [] \<lparr>polls = [], trace = []\<rparr> =
   (Exc (Exception ([CHR 0x27] @
           repr_list [''ploop'', ''umount'', ''/vz/vm1/harddisk.hdd/DiskDescriptor.xml''] @
           [CHR 0x27] @ '' returned 32'')),
    \<lparr>polls = [],
     trace =
       [Popen [''ploop'', ''mount'', ''/vz/vm1/harddisk.hdd/DiskDescriptor.xml''],
        ReadAll [''ploop'', ''mount'', ''/vz/vm1/harddisk.hdd/DiskDescriptor.xml''],
        WaitProc [''ploop'', ''mount'', ''/vz/vm1/harddisk.hdd/DiskDescriptor.xml''],
        Popen [''qemu-img'', ''convert'', ''-f'', ''raw'', ''-O'', ''qcow2'',
               ''/dev/ploop12345'', ''/vz/vm1/tmpA1b2C3''],
        WaitProc [''qemu-img'', ''convert'', ''-f'', ''raw'', ''-O'', ''qcow2'',
                  ''/dev/ploop12345'', ''/vz/vm1/tmpA1b2C3''],
        Popen [''ploop'', ''umount'', ''/vz/vm1/harddisk.hdd/DiskDescriptor.xml''],
        WaitProc [''ploop'', ''umount'', ''/vz/vm1/harddisk.hdd/DiskDescriptor.xml'']]\<rparr>) \<and>
   \<not> sublist ''qemu-img''
       ([CHR 0x27] @
        repr_list [''ploop'', ''umount'', ''/vz/vm1/harddisk.hdd/DiskDescriptor.xml''] @
        [CHR 0x27] @ '' returned 32'')"
  by (simp add: convert_image_def getstatusoutput_def system_exc_def then_do_def popen_def
        emit_def proc_wait_def try_finally_def raise_def ret_def path_join_def is_space_def
        repr_list_def repr_str_def repr_char_def fmt_d_def dec.simps hex_digit_def
        Let_def demo_env_def sublist_Cons_right suffix_to_prefix)

text \<open>
  C4 (amended).  When the mount command starts and its output names a device, the
  conversion runs and then, on every path, the unmount.  The caller sees the unmount's
  failure whenever the unmount fails, whether or not the conversion had failed before
  it; it sees the conversion's failure when the conversion fails and the unmount
  succeeds; and a normal return when both succeed.
\<close>

theorem convert_image_unmounts:
  assumes "\<not> popen_error E (helper @ [''ploop'', ''mount'', path_join src ''DiskDescriptor.xml''])"
    and "search_dev (stdout_of E (helper @ [''ploop'', ''mount'',
                                           path_join src ''DiskDescriptor.xml''])) = Some dev"
  shows "convert_image E src dst disk_format helper s =
         (let dd_path = path_join src ''DiskDescriptor.xml'';
              mount = helper @ [''ploop'', ''mount'', dd_path];
              convert = helper @ [''qemu-img'', ''convert'', ''-f'', ''raw'', ''-O'',
                                  disk_format, dev, dst];
              umount = helper @ [''ploop'', ''umount'', dd_path]
          in ((case call_failure E umount of
                 Some e \<Rightarrow> Exc e
               | None \<Rightarrow> (case call_failure E convert of Some e \<Rightarrow> Exc e | None \<Rightarrow> Ret ())),
              s\<lparr>trace := trace s @ [Popen mount, ReadAll mount, WaitProc mount] @
                          call_events E convert @ call_events E umount\<rparr>))"
  using assms
  by (simp add: convert_image_def getstatusoutput_def then_do_def popen_def emit_def
        proc_wait_def ret_def try_finally_def system_exc_outcome Let_def
        split: option.splits)

theorem convert_image_unmounts_witness:
  "convert_image
     (demo_env\<lparr>exit_status := (\<lambda>cmd. if ''qemu-img'' \<in> set cmd then 1 else 0)\<rparr>)
     ''/vz/vm1/harddisk.hdd'' ''/vz/vm1/tmpA1b2C3'' ''qcow2'' [] \<lparr>polls = [], trace = []\<rparr> =
   (Exc (Exception ([CHR 0x27] @
           repr_list [''qemu-img'', ''convert'', ''-f'', ''raw'', ''-O'', ''qcow2'',
                      ''/dev/ploop12345'', ''/vz/vm1/tmpA1b2C3''] @
           [CHR 0x27] @ '' returned 1'')),
    \<lparr>polls = [],
     trace =
       [Popen [''ploop'', ''mount'', ''/vz/vm1/harddisk.hdd/DiskDescriptor.xml''],
        ReadAll [''ploop'', ''mount'', ''/vz/vm1/harddisk.hdd/DiskDescriptor.xml''],
        WaitProc [''ploop'', ''mount'', ''/vz/vm1/harddisk.hdd/DiskDescriptor.xml''],
        Popen [''qemu-img'', ''convert'', ''-f'', ''raw'', ''-O'', ''qcow2'',
               ''/dev/ploop12345'', ''/vz/vm1/tmpA1b2C3''],
        WaitProc [''qemu-img'', ''convert'', ''-f'', ''raw'', ''-O'', ''qcow2'',
                  ''/dev/ploop12345'', ''/vz/vm1/tmpA1b2C3''],
        Popen [''ploop'', ''umount'', ''/vz/vm1/harddisk.hdd/DiskDescriptor.xml''],
        WaitProc [''ploop'', ''umount'', ''/vz/vm1/harddisk.hdd/DiskDescriptor.xml'']]\<rparr>)"
  using convert_image_unmounts
    [where E = "demo_env\<lparr>exit_status := (\<lambda>cmd. if ''qemu-img'' \<in> set cmd then 1 else 0)\<rparr>"
       and helper = "[]" and src = "''/vz/vm1/harddisk.hdd''" and dev = "''/dev/ploop12345''"
       and dst = "''/vz/vm1/tmpA1b2C3''" and disk_format = "''qcow2''"
       and s = "\<lparr>polls = [], trace = []\<rparr>"]
  by (simp add: demo_env_def path_join_def is_space_def call_failure_def call_events_def
        fmt_d_def dec.simps hex_digit_def Let_def suffix_to_prefix)

subsection \<open>Starting the two stages of a pipe\<close>

text \<open>
  C5.  \<open>compress_ploop\<close> at an environment in which \<open>tar\<close> cannot be started: the
  second stage is not started, but the start failure is swallowed by the first handler
  and the caller gets \<open>UnboundLocalError\<close> for \<open>p1\<close> instead.
\<close>

theorem compress_ploop_swallows_start_failure:
  "compress_ploop
     (demo_env\<lparr>popen_error := (\<lambda>cmd. cmd = [''tar'', ''cO'', ''-C'', ''/vz/private/101'', ''.''])\<rparr>)
     ''/vz/private/101'' ''/vz/template/ct.tar.lzrw'' \<lparr>polls = [], trace = []\<rparr> =
   (Exc (UnboundLocalError ''p1''),
    \<lparr>polls = [],
     trace = [OpenFile ''/vz/template/ct.tar.lzrw'',
              Popen [''tar'', ''cO'', ''-C'', ''/vz/private/101'', ''.''],
              CloseFile ''/vz/template/ct.tar.lzrw'',
              CloseFile ''/vz/template/ct.tar.lzrw'']\<rparr>)"
  by (simp add: compress_ploop_def then_do_def try_except_def try_finally_def open_file_def
        popen_def emit_def ret_def raise_def Let_def demo_env_def)

text \<open>
  The sibling paths, for comparison: \<open>uncompress_ploop\<close> and \<open>CPloopUploader.start\<close>
  let the first stage's start failure through without starting the second stage, and all
  three kill and wait on the first stage when the second cannot be started.
\<close>

lemma first_stage_start_failure_propagates:
  "\<not> open_error E src \<Longrightarrow> popen_error E [''prlcompress'', ''-u''] \<Longrightarrow>
   uncompress_ploop E src dst helper s =
     (Exc (OSError [''prlcompress'', ''-u'']),
      s\<lparr>trace := trace s @ [OpenFile src, Popen [''prlcompress'', ''-u''], CloseFile src]\<rparr>)"
  "popen_error E [''tar'', ''cO'', ''-C'', hdd_path, ''.''] \<Longrightarrow>
   CPloopUploader_start E hdd_path s =
     (Exc (OSError [''tar'', ''cO'', ''-C'', hdd_path, ''.'']),
      s\<lparr>trace := trace s @ [Popen [''tar'', ''cO'', ''-C'', hdd_path, ''.'']]\<rparr>)"
  by (simp_all add: uncompress_ploop_def CPloopUploader_start_def then_do_def try_finally_def
        open_file_def popen_def emit_def Let_def)

lemma second_stage_start_failure_kills_first:
  "\<not> open_error E dst \<Longrightarrow> \<not> popen_error E [''tar'', ''cO'', ''-C'', src, ''.''] \<Longrightarrow>
   popen_error E [''prlcompress'', ''-p''] \<Longrightarrow>
   compress_ploop E src dst s =
     (Exc (OSError [''prlcompress'', ''-p'']),
      s\<lparr>trace := trace s @
            [OpenFile dst, Popen [''tar'', ''cO'', ''-C'', src, ''.''],
             Popen [''prlcompress'', ''-p''], Kill [''tar'', ''cO'', ''-C'', src, ''.''],
             WaitProc [''tar'', ''cO'', ''-C'', src, ''.''], CloseFile dst]\<rparr>)"
  "\<not> open_error E src \<Longrightarrow> \<not> popen_error E [''prlcompress'', ''-u''] \<Longrightarrow>
   popen_error E (helper @ [''tar'', ''x'', ''-C'', dst]) \<Longrightarrow>
   uncompress_ploop E src dst helper s =
     (Exc (OSError (helper @ [''tar'', ''x'', ''-C'', dst])),
      s\<lparr>trace := trace s @
            [OpenFile src, Popen [''prlcompress'', ''-u''], CloseFile src,
             Popen (helper @ [''tar'', ''x'', ''-C'', dst]), Kill [''prlcompress'', ''-u''],
             WaitProc [''prlcompress'', ''-u'']]\<rparr>)"
  "\<not> popen_error E [''tar'', ''cO'', ''-C'', hdd_path, ''.''] \<Longrightarrow>
   popen_error E [''prlcompress'', ''-p''] \<Longrightarrow>
   CPloopUploader_start E hdd_path s =
     (Exc (OSError [''prlcompress'', ''-p'']),
      s\<lparr>trace := trace s @
            [Popen [''tar'', ''cO'', ''-C'', hdd_path, ''.''], Popen [''prlcompress'', ''-p''],
             Kill [''tar'', ''cO'', ''-C'', hdd_path, ''.''],
             WaitProc [''tar'', ''cO'', ''-C'', hdd_path, ''.'']]\<rparr>)"
  by (simp_all add: compress_ploop_def uncompress_ploop_def CPloopUploader_start_def
        then_do_def try_finally_def try_except_def open_file_def popen_def emit_def
        proc_wait_def raise_def ret_def Let_def)

subsection \<open>Snapshot: the clone is deleted exactly once\<close>

lemma quietI:
  assumes "\<And>s. \<exists>r evs. m s = (r, s\<lparr>trace := trace s @ evs\<rparr>) \<and> r \<noteq> Unfinished \<and>
                    list_all (\<lambda>e. \<not> is_delete e) evs"
  shows "quiet m"
  unfolding quiet_def
proof
  fix s
  from assms [of s] obtain r evs where
    "m s = (r, s\<lparr>trace := trace s @ evs\<rparr>)" "r \<noteq> Unfinished"
    "list_all (\<lambda>e. \<not> is_delete e) evs" by blast
  then show "case m s of (r, s') \<Rightarrow> r \<noteq> Unfinished \<and> polls s' = polls s \<and>
               (\<exists>evs. trace s' = trace s @ evs \<and> list_all (\<lambda>e. \<not> is_delete e) evs)"
    by auto
qed

lemma quietD:
  assumes "quiet m"
  shows "\<exists>r evs. m s = (r, s\<lparr>trace := trace s @ evs\<rparr>) \<and> r \<noteq> Unfinished \<and>
                 list_all (\<lambda>e. \<not> is_delete e) evs"
proof -
  obtain r s' where ms: "m s = (r, s')" by (cases "m s")
  with assms have r: "r \<noteq> Unfinished" and p: "polls s' = polls s"
    and "\<exists>evs. trace s' = trace s @ evs \<and> list_all (\<lambda>e. \<not> is_delete e) evs"
    unfolding quiet_def by (auto dest: spec [of _ s])
  then obtain evs where t: "trace s' = trace s @ evs"
    and n: "list_all (\<lambda>e. \<not> is_delete e) evs" by blast
  have "s' = s\<lparr>trace := trace s @ evs\<rparr>" using p t by (cases s, cases s') simp
  with ms r n show ?thesis by blast
qed

lemma quiet_ret [intro!]: "quiet (ret a)"
  by (rule quietI) (auto simp add: ret_def intro: exI [of _ "[]"])

lemma quiet_raise [intro!]: "quiet (raise e)"
  by (rule quietI) (auto simp add: raise_def intro: exI [of _ "[]"])

lemma quiet_lift [intro!]: "quiet (lift r)"
  by (rule quietI) (auto simp add: lift_def split: sum.splits intro: exI [of _ "[]"])

lemma quiet_emit: "\<not> is_delete e \<Longrightarrow> quiet (emit e)"
  by (rule quietI) (auto simp add: emit_def intro: exI [of _ "[e]"])

lemma quiet_then_do [intro!]:
  assumes m: "quiet m" and f: "\<And>a. quiet (f a)"
  shows "quiet (then_do m f)"
proof (rule quietI)
  fix s
  from quietD [OF m, of s] obtain r evs where
    ms: "m s = (r, s\<lparr>trace := trace s @ evs\<rparr>)" and r: "r \<noteq> Unfinished"
    and n: "list_all (\<lambda>e. \<not> is_delete e) evs" by blast
  show "\<exists>r evs. then_do m f s = (r, s\<lparr>trace := trace s @ evs\<rparr>) \<and> r \<noteq> Unfinished \<and>
                 list_all (\<lambda>e. \<not> is_delete e) evs"
  proof (cases r)
    case (Ret a)
    from quietD [OF f, of a "s\<lparr>trace := trace s @ evs\<rparr>"] obtain r' evs' where
      "f a (s\<lparr>trace := trace s @ evs\<rparr>) = (r', s\<lparr>trace := trace s @ evs @ evs'\<rparr>)"
      "r' \<noteq> Unfinished" "list_all (\<lambda>e. \<not> is_delete e) evs'" by auto
    with ms Ret n show ?thesis
      by (intro exI [of _ r'] exI [of _ "evs @ evs'"]) (simp add: then_do_def)
  next
    case (Exc e)
    with ms n show ?thesis
      by (intro exI [of _ "Exc e"] exI [of _ evs]) (simp add: then_do_def)
  next
    case Unfinished
    with r show ?thesis by simp
  qed
qed

lemma quiet_try_finally [intro!]:
  assumes m: "quiet m" and c: "quiet c"
  shows "quiet (try_finally m c)"
proof (rule quietI)
  fix s
  from quietD [OF m, of s] obtain r evs where
    ms: "m s = (r, s\<lparr>trace := trace s @ evs\<rparr>)" and r: "r \<noteq> Unfinished"
    and n: "list_all (\<lambda>e. \<not> is_delete e) evs" by blast
  from quietD [OF c, of "s\<lparr>trace := trace s @ evs\<rparr>"] obtain r' evs' where
    cs: "c (s\<lparr>trace := trace s @ evs\<rparr>) = (r', s\<lparr>trace := trace s @ evs @ evs'\<rparr>)"
    and r': "r' \<noteq> Unfinished" and n': "list_all (\<lambda>e. \<not> is_delete e) evs'" by auto
  have "\<exists>q. try_finally m c s = (q, s\<lparr>trace := trace s @ evs @ evs'\<rparr>) \<and> q \<noteq> Unfinished"
    using ms cs r r' by (cases r; cases r') (simp_all add: try_finally_def)
  with n n' show "\<exists>r evs. try_finally m c s = (r, s\<lparr>trace := trace s @ evs\<rparr>) \<and>
                    r \<noteq> Unfinished \<and> list_all (\<lambda>e. \<not> is_delete e) evs"
    by (metis list_all_append)
qed

lemma quiet_try_except [intro!]:
  assumes m: "quiet m" and h: "\<And>e. quiet (h e)"
  shows "quiet (try_except m h)"
proof (rule quietI)
  fix s
  from quietD [OF m, of s] obtain r evs where
    ms: "m s = (r, s\<lparr>trace := trace s @ evs\<rparr>)" and r: "r \<noteq> Unfinished"
    and n: "list_all (\<lambda>e. \<not> is_delete e) evs" by blast
  show "\<exists>r evs. try_except m h s = (r, s\<lparr>trace := trace s @ evs\<rparr>) \<and> r \<noteq> Unfinished \<and>
                 list_all (\<lambda>e. \<not> is_delete e) evs"
  proof (cases r)
    case (Exc e)
    from quietD [OF h, of e "s\<lparr>trace := trace s @ evs\<rparr>"] obtain r' evs' where
      "h e (s\<lparr>trace := trace s @ evs\<rparr>) = (r', s\<lparr>trace := trace s @ evs @ evs'\<rparr>)"
      "r' \<noteq> Unfinished" "list_all (\<lambda>e. \<not> is_delete e) evs'" by auto
    with ms Exc n show ?thesis
      by (intro exI [of _ r'] exI [of _ "evs @ evs'"]) (simp add: try_except_def)
  next
    case (Ret a)
    with ms n show ?thesis
      by (intro exI [of _ "Ret a"] exI [of _ evs]) (simp add: try_except_def)
  next
    case Unfinished
    with r show ?thesis by simp
  qed
qed

lemma quiet_if [intro!]: "quiet m \<Longrightarrow> quiet n \<Longrightarrow> quiet (if b then m else n)"
  by simp

lemma quiet_case_option [intro!]:
  "quiet a \<Longrightarrow> (\<And>y. quiet (b y)) \<Longrightarrow> quiet (case x of None \<Rightarrow> a | Some y \<Rightarrow> b y)"
  by (cases x) simp_all

lemma quiet_case_prod [intro!]: "(\<And>a b. quiet (f a b)) \<Longrightarrow> quiet (case p of (a, b) \<Rightarrow> f a b)"
  by (cases p) simp

lemma quiet_popen [intro!]: "quiet (popen E cmd)"
  by (rule quietI) (auto simp add: popen_def Let_def intro: exI [of _ "[Popen cmd]"])

lemma quiet_proc_wait [intro!]: "quiet (proc_wait E cmd)"
  by (rule quietI) (auto simp add: proc_wait_def intro: exI [of _ "[WaitProc cmd]"])

lemma quiet_open_file [intro!]: "quiet (open_file E path)"
  by (rule quietI) (auto simp add: open_file_def Let_def intro: exI [of _ "[OpenFile path]"])

lemma quiet_image_show [intro!]: "quiet (image_show E image_id)"
  by (rule quietI)
     (auto simp add: image_show_def Let_def split: option.splits
        intro: exI [of _ "[ImageShow image_id]"])

lemma quiet_upload [intro!]: "quiet (upload E image_id md)"
  by (rule quietI)
     (auto simp add: upload_def Let_def intro: exI [of _ "[ImageUpdate image_id md]"])

lemma quiet_update_task_state [intro!]: "quiet (update_task_state E l)"
  by (rule quietI) (auto simp add: update_task_state_def Let_def intro: exI [of _ "[TaskState l]"])

lemma quiet_execute [intro!]: "quiet (execute E cmd)"
  by (rule quietI) (auto simp add: execute_def Let_def intro: exI [of _ "[Execute cmd]"])

lemma quiet_unlink [intro!]: "quiet (unlink E path)"
  by (rule quietI) (auto simp add: unlink_def Let_def intro: exI [of _ "[Unlink path]"])

lemma quiet_wait_both [intro!]: "quiet (wait_both E cmd1 cmd2)"
  unfolding wait_both_def Let_def by (intro quiet_then_do quiet_proc_wait quiet_if quiet_raise quiet_ret)

lemma quiet_CPloopUploader_start [intro!]: "quiet (CPloopUploader_start E hdd_path)"
  unfolding CPloopUploader_start_def Let_def
  by (intro quiet_then_do quiet_try_except quiet_popen quiet_proc_wait quiet_raise quiet_ret
        quiet_emit) simp_all

lemma quiet_CPloopUploader_wait [intro!]: "quiet (CPloopUploader_wait E u)"
  unfolding CPloopUploader_wait_def by (rule quiet_wait_both)

lemma quiet_system_exc [intro!]: "quiet (system_exc E cmd)"
  unfolding system_exc_def by (intro quiet_then_do quiet_popen quiet_proc_wait quiet_if quiet_raise quiet_ret)

lemma quiet_getstatusoutput [intro!]: "quiet (getstatusoutput E cmd)"
  unfolding getstatusoutput_def
  by (intro quiet_then_do quiet_popen quiet_proc_wait quiet_ret quiet_emit) simp

lemma quiet_convert_image [intro!]: "quiet (convert_image E src dst disk_format helper)"
  unfolding convert_image_def Let_def
  by (intro quiet_then_do quiet_getstatusoutput quiet_case_prod quiet_try_finally
        quiet_case_option quiet_raise quiet_system_exc)

lemma quiet_with_open [intro!]: "quiet body \<Longrightarrow> quiet (with_open E path body)"
  unfolding with_open_def
  by (intro quiet_then_do quiet_open_file quiet_try_finally quiet_emit) simp_all

lemma quiet_snapshot_ve: "quiet (snapshot_ve E image_id v)"
  unfolding snapshot_ve_def Let_def
  by (intro quiet_then_do quiet_image_show quiet_update_task_state quiet_lift quiet_if
        quiet_execute quiet_with_open quiet_ret quiet_upload quiet_CPloopUploader_start
        quiet_try_finally quiet_CPloopUploader_wait quiet_convert_image quiet_unlink)


text \<open>
  C3.  Once the source VE is found, the first checkpoint is passed, the clone exists and
  its directory is owned, \<open>snapshot\<close> runs the body \<open>_snapshot_ve\<close>; however the body
  ends, by returning or by raising, the trace that \<open>snapshot\<close> leaves is the events up
  to the end of the body, none of them the issue of a delete, followed by one delete
  issued on the clone and the wait for it.  When the delete succeeds the caller gets the
  body's outcome (its return, or its exception re-raised); when the delete fails, the
  delete's error.
\<close>

theorem snapshot_deletes_clone_once:
  assumes look: "vm_config E (inst_name inst) = Inr v"
    and cb: "\<not> callback_error E ''image_pending_upload''"
    and cl: "job_error E (Op_clone_ex (''tmpl-'' @ image_id) (pcs_snapshot_dir E)) = None"
    and ch: "\<not> execute_error E [''chown'', ''-R'', ''nova:nova'', clone_dir E]"
  shows "\<exists>r body.
           (let tmpl = (clone_param E)\<lparr>ve_name := ''tmpl-'' @ image_id\<rparr>;
                pre = [TaskState ''image_pending_upload'',
                       Issue (ve_name v) (Op_clone_ex (''tmpl-'' @ image_id) (pcs_snapshot_dir E)),
                       Await (ve_name v) (Op_clone_ex (''tmpl-'' @ image_id) (pcs_snapshot_dir E)),
                       Execute [''chown'', ''-R'', ''nova:nova'', clone_dir E]]
            in snapshot_ve E image_id tmpl (s\<lparr>trace := trace s @ pre\<rparr>) =
                 (r, s\<lparr>trace := trace s @ pre @ body\<rparr>) \<and>
               r \<noteq> Unfinished \<and>
               list_all (\<lambda>e. \<not> is_delete e) (pre @ body) \<and>
               PCSDriver_snapshot E inst image_id s =
                 ((case job_error E Op_delete of
                     None \<Rightarrow> r
                   | Some code \<Rightarrow> Exc (PrlSDKError code)),
                  s\<lparr>trace := trace s @ pre @ body @
                              [Issue (''tmpl-'' @ image_id) Op_delete,
                               Await (''tmpl-'' @ image_id) Op_delete]\<rparr>))"
proof -
  define tmpl where "tmpl = (clone_param E)\<lparr>ve_name := ''tmpl-'' @ image_id\<rparr>"
  define pre where
    "pre = [TaskState ''image_pending_upload'',
            Issue (ve_name v) (Op_clone_ex (''tmpl-'' @ image_id) (pcs_snapshot_dir E)),
            Await (ve_name v) (Op_clone_ex (''tmpl-'' @ image_id) (pcs_snapshot_dir E)),
            Execute [''chown'', ''-R'', ''nova:nova'', clone_dir E]]"
  define s0 where "s0 = s\<lparr>trace := trace s @ pre\<rparr>"
  from quietD [OF quiet_snapshot_ve, of E image_id tmpl s0] obtain r body where
    body: "snapshot_ve E image_id tmpl s0 = (r, s0\<lparr>trace := trace s0 @ body\<rparr>)"
    and r: "r \<noteq> Unfinished" and nd: "list_all (\<lambda>e. \<not> is_delete e) body" by blast
  have front: "PCSDriver_snapshot E inst image_id s =
               try_finally (snapshot_ve E image_id tmpl) (sdk_call E tmpl Op_delete) s0"
    using look cb cl ch
    by (cases "ve_vm_type (clone_param E) = PVT_VM")
       (simp_all add: PCSDriver_snapshot_def then_do_def get_ve_by_name_def update_task_state_def
          sdk_call_def execute_def Let_def clone_dir_def tmpl_def s0_def pre_def)
  have fin: "try_finally (snapshot_ve E image_id tmpl) (sdk_call E tmpl Op_delete) s0 =
              ((case job_error E Op_delete of None \<Rightarrow> r | Some code \<Rightarrow> Exc (PrlSDKError code)),
               s0\<lparr>trace := trace s0 @ body @
                            [Issue (''tmpl-'' @ image_id) Op_delete,
                             Await (''tmpl-'' @ image_id) Op_delete]\<rparr>)"
    using body r
    by (cases r)
       (simp_all add: try_finally_def sdk_call_def Let_def tmpl_def split: option.splits)
  have pre_nd: "list_all (\<lambda>e. \<not> is_delete e) pre" by (simp add: pre_def)
  show ?thesis
    using body r nd pre_nd front fin
    unfolding Let_def tmpl_def pre_def s0_def
    by (intro exI [of _ r] exI [of _ body]) simp
qed


theorem snapshot_deletes_clone_once_witness:
  "PCSDriver_snapshot (demo_env\<lparr>image_update_error := (\<lambda>_. True)\<rparr>)
     \<lparr>inst_name = ''vm1'', inst_power_state = 1\<rparr> ''img42'' \<lparr>polls = [], trace = []\<rparr> =
   (Exc ImageServiceError,
    \<lparr>polls = [],
     trace =
       [TaskState ''image_pending_upload'',
        Issue ''vm1'' (Op_clone_ex ''tmpl-img42'' ''/vz/openstack-snapshots''),
        Await ''vm1'' (Op_clone_ex ''tmpl-img42'' ''/vz/openstack-snapshots''),
        Execute [''chown'', ''-R'', ''nova:nova'', ''/vz/vm1''],
        ImageShow ''img42'', TaskState ''image_uploading'',
        Popen [''tar'', ''cO'', ''-C'', ''/vz/vm1/harddisk.hdd'', ''.''],
        Popen [''prlcompress'', ''-p''],
        ClosePipe [''tar'', ''cO'', ''-C'', ''/vz/vm1/harddisk.hdd'', ''.''],
        ImageUpdate ''img42''
          \<lparr>md_name = ''snap1'', md_disk_format = ''cploop'', md_vm_mode = ''hvm'',
           md_pcs_ostemplate = ''centos-6'', md_pcs_disk_descriptor = None\<rparr>,
        WaitProc [''tar'', ''cO'', ''-C'', ''/vz/vm1/harddisk.hdd'', ''.''],
        WaitProc [''prlcompress'', ''-p''],
        Issue ''tmpl-img42'' Op_delete, Await ''tmpl-img42'' Op_delete]\<rparr>)"
  using snapshot_deletes_clone_once
    [where E = "demo_env\<lparr>image_update_error := (\<lambda>_. True)\<rparr>"
       and inst = "\<lparr>inst_name = ''vm1'', inst_power_state = 1\<rparr>" and v = demo_ve
       and image_id = "''img42''" and s = "\<lparr>polls = [], trace = []\<rparr>"]
  by (simp add: demo_env_def demo_ve_def clone_dir_def dirname_def rstrip_slash_def
        snapshot_ve_def then_do_def image_show_def update_task_state_def lift_def
        get_boot_disk_def get_vm_boot_disk_def get_hard_disk_def CPloopUploader_start_def
        CPloopUploader_wait_def wait_both_def status_msg_def try_except_def try_finally_def
        popen_def emit_def proc_wait_def upload_def ret_def raise_def Let_def)

end
